theory Spec2Isabelle
  imports Complex_Main
begin

section \<open>The stepwise k-means engine\<close>

text \<open>
  The widget \<^verbatim>\<open>OWKmeans\<close> drives an object of class \<^verbatim>\<open>Kmeans\<close>
  (module \<^verbatim>\<open>utils/kmeans.py\<close>), of which the widget's file only shows the interface
  it uses: \<^verbatim>\<open>step\<close>, \<^verbatim>\<open>stepBack\<close>, \<^verbatim>\<open>add_centroids\<close>,
  \<^verbatim>\<open>delete_centroids\<close>, \<^verbatim>\<open>move_centroid\<close> and the attributes
  \<^verbatim>\<open>k\<close>, \<^verbatim>\<open>stepNo\<close>, \<^verbatim>\<open>step_completed\<close>, \<^verbatim>\<open>converged\<close>,
  \<^verbatim>\<open>clusters\<close>, \<^verbatim>\<open>centroids\<close>, \<^verbatim>\<open>centroids_belonging_points\<close>.
  The engine is therefore written down from the specification's section 4.1, under the
  names the widget uses. Coordinates are real numbers; random draws are arguments.
\<close>

type_synonym point = "real \<times> real"

text \<open>Modelled from the spec: a history snapshot (centroids, assignments, phase), the
  entry type of the history kept by the missing class \<^verbatim>\<open>Kmeans\<close>.\<close>

record snapshot =
  snap_centroids :: "point list"
  snap_clusters :: "nat list option"
  snap_step_completed :: bool

text \<open>Modelled from the spec: the state of the missing class \<^verbatim>\<open>Kmeans\<close>: the dataset,
  the centroids, the assignment (\<open>None\<close> while unset), the phase as the flag
  \<^verbatim>\<open>step_completed\<close> (true: the next step assigns; false: the next step moves the
  centroids), the convergence flag and the history, most recent snapshot first.\<close>

record kmeans =
  kdata :: "point list"
  centroids :: "point list"
  clusters :: "nat list option"
  step_completed :: bool
  converged :: bool
  history :: "snapshot list"

text \<open>Modelled from the spec: the attribute \<^verbatim>\<open>k\<close> of the missing class
  \<^verbatim>\<open>Kmeans\<close>, the number of centroids.\<close>

definition Kmeans_k :: "kmeans \<Rightarrow> nat" where
  "Kmeans_k km = length (centroids km)"

text \<open>Modelled from the spec: the attribute \<^verbatim>\<open>stepNo\<close> of the missing class
  \<^verbatim>\<open>Kmeans\<close>, the step count, which is the history length.\<close>

definition Kmeans_stepNo :: "kmeans \<Rightarrow> int" where
  "Kmeans_stepNo km = int (length (history km))"

text \<open>Modelled from the spec: construction of the missing class \<^verbatim>\<open>Kmeans\<close> as the
  widget calls it, with the dataset only: one centroid (the default K = 1) at the random
  position \<open>r\<close>, phase awaiting assignment, empty history, assignments unset.\<close>

definition Kmeans_init :: "point list \<Rightarrow> point \<Rightarrow> kmeans" where
  "Kmeans_init d r =
     \<lparr>kdata = d, centroids = [r], clusters = None, step_completed = True,
      converged = False, history = []\<rparr>"

text \<open>Modelled from the spec: the Euclidean distance in 2D used by the assignment phase
  of the missing \<^verbatim>\<open>Kmeans.step\<close>.\<close>

definition distance :: "point \<Rightarrow> point \<Rightarrow> real" where
  "distance p c = sqrt ((fst p - fst c)\<^sup>2 + (snd p - snd c)\<^sup>2)"

text \<open>Modelled from the spec: the index of the minimum of the distances to every
  centroid, ties broken by the lowest index (part of the missing \<^verbatim>\<open>Kmeans.step\<close>).
  Without any centroid there is no nearest one.\<close>

fun argmin :: "real list \<Rightarrow> nat option" where
  "argmin [] = None"
| "argmin (d # ds) =
     (case argmin ds of
        None \<Rightarrow> Some 0
      | Some j \<Rightarrow> if d \<le> ds ! j then Some 0 else Some (Suc j))"

text \<open>Modelled from the spec: the nearest centroid of one point (part of the missing
  \<^verbatim>\<open>Kmeans.step\<close>).\<close>

definition nearest :: "point \<Rightarrow> point list \<Rightarrow> nat option" where
  "nearest p cs = argmin (map (distance p) cs)"

text \<open>Modelled from the spec: the assignment of every point of the dataset to its
  nearest centroid (part of the missing \<^verbatim>\<open>Kmeans.step\<close>); unset when some point has no
  nearest centroid.\<close>

definition find_clusters :: "point list \<Rightarrow> point list \<Rightarrow> nat list option" where
  "find_clusters d cs = those (map (\<lambda>p. nearest p cs) d)"

text \<open>Modelled from the spec: the query \<^verbatim>\<open>centroids_belonging_points\<close> of the missing
  class \<^verbatim>\<open>Kmeans\<close>: for each centroid index the points currently assigned to it, in
  dataset order; empty groups before the first assignment phase.\<close>

definition centroids_belonging_points :: "kmeans \<Rightarrow> point list list" where
  "centroids_belonging_points km =
     (case clusters km of
        None \<Rightarrow> map (\<lambda>_. []) (centroids km)
      | Some a \<Rightarrow>
          map (\<lambda>i. map fst (filter (\<lambda>pc. snd pc = i) (zip (kdata km) a)))
            [0 ..< length (centroids km)])"

text \<open>Modelled from the spec: the arithmetic mean of the coordinates of a group of
  points (part of the update phase of the missing \<^verbatim>\<open>Kmeans.step\<close>).\<close>

definition mean :: "point list \<Rightarrow> point" where
  "mean ps =
     (sum_list (map fst ps) / real (length ps), sum_list (map snd ps) / real (length ps))"

text \<open>Modelled from the spec: the update phase of the missing \<^verbatim>\<open>Kmeans.step\<close>: every
  centroid moves to the mean of its members, a centroid without members stays.\<close>

definition move_to_means :: "kmeans \<Rightarrow> point list" where
  "move_to_means km =
     map (\<lambda>cg. if snd cg = [] then fst cg else mean (snd cg))
       (zip (centroids km) (centroids_belonging_points km))"

text \<open>Modelled from the spec: the snapshot of the current state pushed before a step of
  the missing class \<^verbatim>\<open>Kmeans\<close>.\<close>

definition take_snapshot :: "kmeans \<Rightarrow> snapshot" where
  "take_snapshot km =
     \<lparr>snap_centroids = centroids km, snap_clusters = clusters km,
      snap_step_completed = step_completed km\<rparr>"

text \<open>Modelled from the spec: the missing \<^verbatim>\<open>Kmeans.step\<close>. The pre-step snapshot is
  pushed; awaiting assignment, the points are assigned and the result is compared with
  the previous assignment for convergence; awaiting update, the centroids move to the
  means and convergence is cleared when a centroid moved.\<close>

definition Kmeans_step :: "kmeans \<Rightarrow> kmeans" where
  "Kmeans_step km =
     (if step_completed km then
        (let a = find_clusters (kdata km) (centroids km) in
         km\<lparr>clusters := a, step_completed := False,
            converged := (a \<noteq> None \<and> a = clusters km),
            history := take_snapshot km # history km\<rparr>)
      else
        (let cs = move_to_means km in
         km\<lparr>centroids := cs, step_completed := True,
            converged := (converged km \<and> cs = centroids km),
            history := take_snapshot km # history km\<rparr>))"

text \<open>Modelled from the spec: the missing \<^verbatim>\<open>Kmeans.stepBack\<close>: with a non-empty
  history the most recent snapshot is popped and restored and convergence is cleared;
  with an empty history nothing happens.\<close>

definition Kmeans_stepBack :: "kmeans \<Rightarrow> kmeans" where
  "Kmeans_stepBack km =
     (case history km of
        [] \<Rightarrow> km
      | s # h \<Rightarrow>
          km\<lparr>centroids := snap_centroids s, clusters := snap_clusters s,
             step_completed := snap_step_completed s, converged := False,
             history := h\<rparr>)"

text \<open>Modelled from the spec: the missing \<^verbatim>\<open>Kmeans.add_centroids\<close>: a new centroid
  is appended at the given position, or at the random position \<open>r\<close> when none is given;
  the assignments stay as they are and convergence is cleared. The phase gate is the
  caller's, as in the reference behaviour.\<close>

definition Kmeans_add_centroids :: "point option \<Rightarrow> point \<Rightarrow> kmeans \<Rightarrow> kmeans" where
  "Kmeans_add_centroids pos r km =
     km\<lparr>centroids := centroids km @ [case pos of None \<Rightarrow> r | Some p \<Rightarrow> p],
        converged := False\<rparr>"

text \<open>Modelled from the spec: the missing \<^verbatim>\<open>Kmeans.delete_centroids\<close> as the widget
  calls it, without an index: the last centroid is removed, and nothing happens when K
  would drop below 1.\<close>

definition Kmeans_delete_centroids :: "kmeans \<Rightarrow> kmeans" where
  "Kmeans_delete_centroids km =
     (if length (centroids km) \<le> 1 then km
      else km\<lparr>centroids := butlast (centroids km), converged := False\<rparr>)"

text \<open>Modelled from the spec: the missing \<^verbatim>\<open>Kmeans.move_centroid\<close>: the coordinates of
  the centroid at the index are overwritten and convergence is cleared; an index outside
  0..K-1 is rejected without a change.\<close>

definition Kmeans_move_centroid :: "int \<Rightarrow> real \<Rightarrow> real \<Rightarrow> kmeans \<Rightarrow> kmeans" where
  "Kmeans_move_centroid i x y km =
     (if 0 \<le> i \<and> i < int (length (centroids km))
      then km\<lparr>centroids := (centroids km)[nat i := (x, y)], converged := False\<rparr>
      else km)"


section \<open>The widget\<close>

text \<open>
  The state of \<^verbatim>\<open>OWKmeans\<close>: its settings, the input table, the clustering engine, the
  state of the controls it enables and disables, the chart, and the log of what it sent
  on its outputs. An Orange table is represented by the variables of its domain and its
  rows, each row giving the value of a variable by the variable's name; indexing the
  domain by a name that is not among its variables raises \<^verbatim>\<open>KeyError\<close>. Both combo
  boxes hold the same items. The numpy random generator is a stream of points.
\<close>

datatype error = AttributeError | TypeError | ValueError | KeyError

datatype var_type = Continuous | Discrete | String

record variable =
  var_name :: string
  var_type :: var_type
  var_values :: "string list"

definition is_continuous :: "variable \<Rightarrow> bool" where
  "is_continuous v = (var_type v = Continuous)"

definition is_primitive :: "variable \<Rightarrow> bool" where
  "is_primitive v = (var_type v = Continuous \<or> var_type v = Discrete)"

record table =
  domain_attributes :: "variable list"
  domain_class_vars :: "variable list"
  domain_metas :: "variable list"
  rows :: "(string \<Rightarrow> real) list"

definition domain_names :: "table \<Rightarrow> string list" where
  "domain_names t =
     map var_name (domain_attributes t @ domain_class_vars t @ domain_metas t)"

record annotated =
  ann_attributes :: "variable list"
  ann_class_vars :: "variable list"
  ann_metas :: "variable list"
  ann_rows :: "(string \<Rightarrow> real) list"
  ann_cluster_column :: "nat list"

datatype payload = NoTable | Annotated_table annotated | Centroid_table "point list"

text \<open>A point as the chart is given it by \<^verbatim>\<open>replot\<close>: \<^verbatim>\<open>np.around(points, decimals=2)\<close>
  for the data points, \<^verbatim>\<open>round(p[0], 2)\<close> and \<^verbatim>\<open>round(p[1], 2)\<close> for a centroid. Both
  round a binary floating-point number, so the rounded coordinates are not computed from
  the exact ones here: \<open>Around2 p\<close> stands for the point \<open>p\<close> rounded to two decimals.\<close>

datatype rounded = Around2 point

text \<open>The chart: cleared, or drawn from the line series (unrounded), the series of the
  data points of each centroid, and the centroid series with its two draggable flags.
  Colours, markers, axis titles and tooltips are left out.\<close>

datatype chart =
    Cleared
  | Chart (line_series: "point list list") (point_series: "rounded list list")
      (centroid_series: "rounded list") (draggableX: bool) (draggableY: bool)

record widget =
  data :: "table option"
  numberOfClusters :: int
  autoPlay :: bool
  attr_x :: string
  attr_y :: string
  lines_to_centroids :: bool
  k_means :: "kmeans option"
  combo_items :: "string list"
  info :: string
  optionsBox_disabled :: bool
  commandsBox_disabled :: bool
  centroidNumbersSpinner_disabled :: bool
  stepButton_disabled :: bool
  stepButton_text :: string
  stepBackButton_disabled :: bool
  restartButton_disabled :: bool
  autoPlayButton_text :: string
  autoPlayThreads :: nat
  scatter :: chart
  sent :: "(string \<times> payload) list"
  rng :: "nat \<Rightarrow> point"

text \<open>
  A method either returns or raises; in both cases it leaves a widget state behind, since
  what it assigned before raising stays assigned.
\<close>

type_synonym outcome = "error option \<times> widget"

definition returns :: "widget \<Rightarrow> outcome" where
  "returns w = (None, w)"

definition raises :: "error \<Rightarrow> widget \<Rightarrow> outcome" where
  "raises e w = (Some e, w)"

definition and_then :: "outcome \<Rightarrow> (widget \<Rightarrow> outcome) \<Rightarrow> outcome" where
  "and_then r f = (case fst r of None \<Rightarrow> f (snd r) | Some e \<Rightarrow> r)"

definition outputName :: string where
  "outputName = ''cluster''"

definition too_few_points :: string where
  "too_few_points =
     ''Please provide at least number'' @ [CHR 0x0A] @
     ''of points equal to number of clusters'' @ [CHR 0x0A] @
     ''selected or decrease number of clusters''"

text \<open>Decimal digits of a natural number, for \<^verbatim>\<open>"C%d" % (x + 1)\<close>.\<close>

definition digit :: "nat \<Rightarrow> char" where
  "digit d = ''0123456789'' ! d"

function string_of_nat :: "nat \<Rightarrow> string" where
  "string_of_nat n =
     (if n < 10 then [digit n] else string_of_nat (n div 10) @ [digit (n mod 10)])"
  by pat_completeness auto
termination
  by (relation "measure id") auto

declare string_of_nat.simps [simp del]

text \<open>Both lookups \<^verbatim>\<open>data.domain[self.attr_x]\<close> and \<^verbatim>\<open>data.domain[self.attr_y]\<close>
  find a variable.\<close>

definition selection_in_domain :: "widget \<Rightarrow> table \<Rightarrow> bool" where
  "selection_in_domain w t =
     (attr_x w \<in> set (domain_names t) \<and> attr_y w \<in> set (domain_names t))"

definition concat_x_y :: "widget \<Rightarrow> error + point list" where
  "concat_x_y w =
     (case data w of
        None \<Rightarrow> Inl AttributeError
      | Some t \<Rightarrow>
          if selection_in_domain w t
          then Inr (map (\<lambda>r. (r (attr_x w), r (attr_y w))) (rows t))
          else Inl KeyError)"

definition set_empty_plot :: "widget \<Rightarrow> widget" where
  "set_empty_plot w = w\<lparr>scatter := Cleared\<rparr>"

definition send :: "string \<Rightarrow> payload \<Rightarrow> widget \<Rightarrow> widget" where
  "send name v w = w\<lparr>sent := sent w @ [(name, v)]\<rparr>"

definition membership_lines :: "kmeans \<Rightarrow> point list list" where
  "membership_lines km =
     map (\<lambda>cg. concat (map (\<lambda>p. [p, fst cg]) (snd cg)))
       (zip (centroids km) (centroids_belonging_points km))"

definition replot :: "widget \<Rightarrow> outcome" where
  "replot w =
     (case data w of
        None \<Rightarrow> returns w
      | Some t \<Rightarrow>
          if attr_x w = [] \<or> attr_y w = [] then returns w
          else if \<not> selection_in_domain w t then raises KeyError w
          else case k_means w of
            None \<Rightarrow> raises AttributeError w
          | Some km \<Rightarrow>
              returns (w\<lparr>scatter :=
                Chart (if lines_to_centroids w then membership_lines km else [])
                  (map (map Around2) (centroids_belonging_points km))
                  (map Around2 (centroids km))
                  (if step_completed km then True else False)
                  (if step_completed km then True else False)\<rparr>))"

definition cluster_values :: "nat \<Rightarrow> string list" where
  "cluster_values k = map (\<lambda>x. ''C'' @ string_of_nat (x + 1)) [0 ..< k]"

definition send_data :: "widget \<Rightarrow> outcome" where
  "send_data w =
     (case k_means w of
        None \<Rightarrow> returns (send ''Centroids'' NoTable (send ''Annotated Data'' NoTable w))
      | Some km \<Rightarrow>
         (case clusters km of
            None \<Rightarrow> returns (send ''Centroids'' NoTable (send ''Annotated Data'' NoTable w))
          | Some cl \<Rightarrow>
             (case data w of
                None \<Rightarrow> raises AttributeError w
              | Some t \<Rightarrow>
                 (let clust_var =
                        \<lparr>var_name = outputName, var_type = Discrete,
                         var_values = cluster_values (Kmeans_k km)\<rparr>;
                      meta_attrs =
                        (if domain_class_vars t \<noteq> [] then domain_metas t @ domain_class_vars t
                         else domain_metas t);
                      n = length (rows t)
                  in if length cl = n \<or> length cl = 1 then
                       returns
                         (send ''Centroids'' (Centroid_table (centroids km))
                           (send ''Annotated Data''
                             (Annotated_table
                               \<lparr>ann_attributes = domain_attributes t,
                                ann_class_vars = [clust_var], ann_metas = meta_attrs,
                                ann_rows = rows t,
                                ann_cluster_column =
                                  (if length cl = n then cl else replicate n (cl ! 0))\<rparr>)
                             w))
                     else raises ValueError w))))"

definition add_random_centroid :: "widget \<Rightarrow> widget" where
  "add_random_centroid w =
     (case k_means w of
        None \<Rightarrow> w
      | Some km \<Rightarrow>
          w\<lparr>k_means := Some (Kmeans_add_centroids None (rng w 0) km),
            rng := (\<lambda>n. rng w (Suc n))\<rparr>)"

definition delete_last_centroid :: "widget \<Rightarrow> widget" where
  "delete_last_centroid w =
     (case k_means w of
        None \<Rightarrow> w
      | Some km \<Rightarrow> w\<lparr>k_means := Some (Kmeans_delete_centroids km)\<rparr>)"

text \<open>Lines 387 to 392 of \<^verbatim>\<open>number_of_clusters_changed\<close>: the two loops that add or
  delete centroids until the engine \<open>km\<close> of the widget has \<^verbatim>\<open>numberOfClusters\<close> of
  them.\<close>

definition adjusted :: "widget \<Rightarrow> kmeans \<Rightarrow> widget" where
  "adjusted w km =
     (if int (Kmeans_k km) < numberOfClusters w
      then (add_random_centroid ^^ nat (numberOfClusters w - int (Kmeans_k km))) w
      else (delete_last_centroid ^^ nat (int (Kmeans_k km) - numberOfClusters w)) w)"

text \<open>Lines 387 to 395: the loops, then the replot and the output.\<close>

definition adjust_centroids :: "widget \<Rightarrow> outcome" where
  "adjust_centroids w =
     (case k_means w of
        None \<Rightarrow> raises AttributeError w
      | Some km \<Rightarrow> and_then (replot (adjusted w km)) send_data)"

text \<open>\<^verbatim>\<open>number_of_clusters_changed\<close> and \<^verbatim>\<open>restart\<close> call each other: the first calls
  \<^verbatim>\<open>restart\<close> when there is no engine yet, and \<^verbatim>\<open>restart\<close> calls the first right after
  creating one. The method is first written with the \<^verbatim>\<open>restart\<close> it calls as an argument.\<close>

definition number_of_clusters_changed_via :: "(widget \<Rightarrow> outcome) \<Rightarrow> widget \<Rightarrow> outcome" where
  "number_of_clusters_changed_via restart_method w =
     (case data w of
        None \<Rightarrow> raises TypeError w
      | Some t \<Rightarrow>
          if numberOfClusters w > int (length (rows t)) then
            returns ((set_empty_plot (w\<lparr>info := too_few_points\<rparr>))\<lparr>commandsBox_disabled := True\<rparr>)
          else
            and_then
              (let w1 = w\<lparr>info := [], commandsBox_disabled := False\<rparr> in
               if k_means w1 = None then restart_method w1 else returns w1)
              adjust_centroids)"

definition restart :: "widget \<Rightarrow> outcome" where
  "restart w =
     (case concat_x_y w of
        Inl e \<Rightarrow> raises e w
      | Inr d \<Rightarrow>
          and_then
            (and_then
              (number_of_clusters_changed_via returns
                (w\<lparr>k_means := Some (Kmeans_init d (rng w 0)), rng := (\<lambda>n. rng w (Suc n))\<rparr>))
              replot)
            (\<lambda>w2. send_data
               (w2\<lparr>centroidNumbersSpinner_disabled := False,
                  stepButton_text := ''Move centroids'',
                  stepBackButton_disabled := True\<rparr>)))"

definition number_of_clusters_changed :: "widget \<Rightarrow> outcome" where
  "number_of_clusters_changed w = number_of_clusters_changed_via restart w"

definition step :: "widget \<Rightarrow> outcome" where
  "step w =
     (case k_means w of
        None \<Rightarrow> raises AttributeError w
      | Some km \<Rightarrow>
          and_then (replot (w\<lparr>k_means := Some (Kmeans_step km)\<rparr>))
            (\<lambda>w1. send_data
               (w1\<lparr>centroidNumbersSpinner_disabled :=
                     (if step_completed (Kmeans_step km) then False else True),
                  stepButton_text :=
                     (if step_completed (Kmeans_step km) then ''Move centroids''
                      else ''Find new clusters''),
                  stepBackButton_disabled :=
                     (if \<not> autoPlay w1 then False else stepBackButton_disabled w1)\<rparr>)))"

definition step_back :: "widget \<Rightarrow> outcome" where
  "step_back w =
     (case k_means w of
        None \<Rightarrow> raises AttributeError w
      | Some km \<Rightarrow>
          and_then (replot (w\<lparr>k_means := Some (Kmeans_stepBack km)\<rparr>))
            (\<lambda>w1. send_data
               (w1\<lparr>centroidNumbersSpinner_disabled :=
                     (if step_completed (Kmeans_stepBack km) then False else True),
                  stepButton_text :=
                     (if step_completed (Kmeans_stepBack km) then ''Move centroids''
                      else ''Find new clusters''),
                  stepBackButton_disabled :=
                     (if Kmeans_stepNo (Kmeans_stepBack km) \<le> 0 then True
                      else stepBackButton_disabled w1)\<rparr>)))"

definition stop_auto_play :: "widget \<Rightarrow> outcome" where
  "stop_auto_play w =
     returns
       (w\<lparr>optionsBox_disabled := False, stepButton_disabled := False,
          restartButton_disabled := False, stepBackButton_disabled := False,
          autoPlay := False, autoPlayButton_text := ''Start''\<rparr>)"

definition auto_play :: "widget \<Rightarrow> outcome" where
  "auto_play w =
     (let w1 = w\<lparr>autoPlay := \<not> autoPlay w,
                 autoPlayButton_text := (if \<not> autoPlay w then ''Stop'' else ''Start'')\<rparr>
      in if autoPlay w1 then
           returns
             (w1\<lparr>optionsBox_disabled := True, stepButton_disabled := True,
                 restartButton_disabled := True, stepBackButton_disabled := True,
                 autoPlayThreads := Suc (autoPlayThreads w1)\<rparr>)
         else stop_auto_play w1)"

definition graph_clicked :: "real \<Rightarrow> real \<Rightarrow> widget \<Rightarrow> outcome" where
  "graph_clicked x y w =
     (case k_means w of
        None \<Rightarrow> returns w
      | Some km \<Rightarrow>
          if step_completed km then
            and_then
              (replot
                (w\<lparr>k_means := Some (Kmeans_add_centroids (Some (x, y)) (rng w 0) km),
                   numberOfClusters := numberOfClusters w + 1\<rparr>))
              send_data
          else returns w)"

definition centroid_dropped :: "int \<Rightarrow> real \<Rightarrow> real \<Rightarrow> widget \<Rightarrow> outcome" where
  "centroid_dropped i x y w =
     (case k_means w of
        None \<Rightarrow> raises AttributeError w
      | Some km \<Rightarrow>
          and_then (replot (w\<lparr>k_means := Some (Kmeans_move_centroid i x y km)\<rparr>)) send_data)"

text \<open>\<^verbatim>\<open>itemText\<close> of a combo box: the empty string when there is no such item.\<close>

definition item_text :: "string list \<Rightarrow> nat \<Rightarrow> string" where
  "item_text items i = (if i < length items then items ! i else [])"

definition set_data :: "table option \<Rightarrow> widget \<Rightarrow> outcome" where
  "set_data d w =
     (let w1 = w\<lparr>data := d,
                 combo_items :=
                   (case d of
                      None \<Rightarrow> []
                    | Some t \<Rightarrow>
                        map var_name
                          (filter (\<lambda>v. is_primitive v \<and> is_continuous v)
                            (domain_attributes t @ domain_class_vars t)))\<rparr>
      in case d of
        None \<Rightarrow>
          returns
            ((set_empty_plot
               (w1\<lparr>info := ''No data on input yet, waiting to get something.''\<rparr>))
             \<lparr>optionsBox_disabled := True\<rparr>)
      | Some t \<Rightarrow>
          if length (filter is_continuous (domain_attributes t)) < 2 then
            returns
              ((set_empty_plot (w1\<lparr>info := ''Too few Continuous feature. Min 2 required''\<rparr>))
               \<lparr>optionsBox_disabled := True\<rparr>)
          else
            restart
              (w1\<lparr>optionsBox_disabled := False, info := [],
                  attr_x := item_text (combo_items w1) 0,
                  attr_y := item_text (combo_items w1) 1\<rparr>))"

text \<open>What the input, the user and the autoplay thread can trigger. The spinner stores
  its new value in \<^verbatim>\<open>numberOfClusters\<close> and then calls
  \<^verbatim>\<open>number_of_clusters_changed\<close>. An exception raised in a callback ends that callback
  only.\<close>

datatype operation =
    Set_data "table option"
  | Restart
  | Spinner int
  | Chart_click real real
  | Centroid_drop int real real
  | Step
  | Step_back
  | Auto_play
  | Stop_auto_play

fun perform :: "operation \<Rightarrow> widget \<Rightarrow> widget" where
  "perform (Set_data d) w = snd (set_data d w)"
| "perform Restart w = snd (restart w)"
| "perform (Spinner n) w = snd (number_of_clusters_changed (w\<lparr>numberOfClusters := n\<rparr>))"
| "perform (Chart_click x y) w = snd (graph_clicked x y w)"
| "perform (Centroid_drop i x y) w = snd (centroid_dropped i x y w)"
| "perform Step w = snd (step w)"
| "perform Step_back w = snd (step_back w)"
| "perform Auto_play w = snd (auto_play w)"
| "perform Stop_auto_play w = snd (stop_auto_play w)"

definition perform_all :: "operation list \<Rightarrow> widget \<Rightarrow> widget" where
  "perform_all ops w = fold perform ops w"

text \<open>The widget as \<^verbatim>\<open>__init__\<close> leaves it, for given stored settings and random stream.\<close>

definition new_widget :: "int \<Rightarrow> (nat \<Rightarrow> point) \<Rightarrow> widget" where
  "new_widget n r =
     \<lparr>data = None, numberOfClusters = n, autoPlay = False, attr_x = [], attr_y = [],
      lines_to_centroids = False, k_means = None, combo_items = [],
      info = ''No data on input yet, waiting to get something.'',
      optionsBox_disabled = True, commandsBox_disabled = False,
      centroidNumbersSpinner_disabled = False, stepButton_disabled = False,
      stepButton_text = ''Move centroids'', stepBackButton_disabled = True,
      restartButton_disabled = False, autoPlayButton_text = ''Start'',
      autoPlayThreads = 0, scatter = Cleared, sent = [], rng = r\<rparr>"

section \<open>The autoplay thread\<close>

text \<open>
  \<^verbatim>\<open>Autoplay.run\<close> reads the widget at every test of its loop condition; \<open>view i\<close> is
  the widget as the thread sees it at its \<open>i\<close>-th test. The result is the sequence of
  signals it emitted and of its sleeps, in seconds. A loop whose condition never fails
  does not return.
\<close>

datatype event = Emit string | Sleep nat

partial_function (option) run_from ::
  "(nat \<Rightarrow> widget) \<Rightarrow> nat \<Rightarrow> event list \<Rightarrow> (error option \<times> event list) option" where
  "run_from view i tr =
     (case k_means (view i) of
        None \<Rightarrow> Some (Some AttributeError, tr)
      | Some km \<Rightarrow>
          if \<not> converged km \<and> autoPlay (view i)
          then run_from view (Suc i) (tr @ [Emit ''step()'', Sleep 1])
          else Some (None, tr @ [Emit ''stop_auto_play()'']))"

definition run :: "(nat \<Rightarrow> widget) \<Rightarrow> (error option \<times> event list) option" where
  "run view = run_from view 0 []"

section \<open>Invariants and example states\<close>

text \<open>The loop condition of \<^verbatim>\<open>Autoplay.run\<close>, on the widget as the thread sees it.\<close>

definition loop_condition :: "widget \<Rightarrow> bool" where
  "loop_condition w = (case k_means w of None \<Rightarrow> False | Some km \<Rightarrow> \<not> converged km \<and> autoPlay w)"

text \<open>An engine has at least one centroid now and in every snapshot of its history.\<close>

definition Kmeans_ok :: "kmeans \<Rightarrow> bool" where
  "Kmeans_ok km = (centroids km \<noteq> [] \<and> (\<forall>s \<in> set (history km). snap_centroids s \<noteq> []))"

definition engine_ok :: "widget \<Rightarrow> bool" where
  "engine_ok w = (case k_means w of None \<Rightarrow> True | Some km \<Rightarrow> Kmeans_ok km)"

text \<open>The lookups of \<^verbatim>\<open>replot\<close> in the domain of the table, if it makes any, find
  their variables.\<close>

definition selection_ok :: "widget \<Rightarrow> bool" where
  "selection_ok w =
     (case data w of
        None \<Rightarrow> True
      | Some t \<Rightarrow> attr_x w = [] \<or> attr_y w = [] \<or> selection_in_domain w t)"





text \<open>The example scenario of the specification: four points and two centroids, before
  the first assignment phase.\<close>

definition example_points :: "point list" where
  "example_points = [(0, 0), (0, 1), (10, 0), (10, 1)]"

definition example_km :: kmeans where
  "example_km =
     \<lparr>kdata = example_points, centroids = [(0, 0), (10, 0)], clusters = None,
      step_completed = True, converged = False, history = []\<rparr>"

text \<open>A table with the continuous attributes x and y holding the example points, and a
  random stream that draws (0, 0), (10, 0), (20, 0) and so on.\<close>

definition example_row :: "real \<Rightarrow> real \<Rightarrow> string \<Rightarrow> real" where
  "example_row a b v = (if v = ''x'' then a else b)"

definition example_table :: table where
  "example_table =
     \<lparr>domain_attributes =
        [\<lparr>var_name = ''x'', var_type = Continuous, var_values = []\<rparr>,
         \<lparr>var_name = ''y'', var_type = Continuous, var_values = []\<rparr>],
      domain_class_vars = [], domain_metas = [],
      rows = [example_row 0 0, example_row 0 1, example_row 10 0, example_row 10 1]\<rparr>"

definition example_rng :: "nat \<Rightarrow> point" where
  "example_rng n = (real n * 10, 0)"

text \<open>The widget with the stored setting \<open>n\<close> inside \<^verbatim>\<open>set_data\<close> of the example table,
  at the point where \<^verbatim>\<open>set_data\<close> calls \<^verbatim>\<open>restart\<close>.\<close>

definition example_widget :: "int \<Rightarrow> widget" where
  "example_widget n =
     (new_widget n example_rng)\<lparr>data := Some example_table, combo_items := [''x'', ''y''],
        optionsBox_disabled := False, info := [], attr_x := ''x'', attr_y := ''y''\<rparr>"

text \<open>The widget after the example table arrived with two clusters set, and after one
  step from there.\<close>

definition example_session :: widget where
  "example_session = perform (Set_data (Some example_table)) (new_widget 2 example_rng)"

definition example_assigned :: widget where
  "example_assigned = perform Step example_session"

text \<open>What an autoplay thread sees when the engine converges before its third test.\<close>

definition example_view :: "nat \<Rightarrow> widget" where
  "example_view i =
     (example_widget 2)\<lparr>autoPlay := True, k_means := Some (example_km\<lparr>converged := (2 \<le> i)\<rparr>)\<rparr>"


text \<open>The widget after the example table arrived, one step was made and the input was
  removed again.\<close>

definition example_disconnected :: widget where
  "example_disconnected =
     perform_all [Set_data (Some example_table), Step, Set_data None]
       (new_widget 2 example_rng)"

section \<open>Assignment phase\<close>

lemma argmin_first_min:
  "ds \<noteq> [] \<Longrightarrow> \<exists>i. argmin ds = Some i \<and> i < length ds \<and>
     (\<forall>j < length ds. ds ! i \<le> ds ! j) \<and> (\<forall>j < i. ds ! i < ds ! j)"
proof (induction ds)
  case Nil
  then show ?case by simp
next
  case (Cons d ds)
  show ?case
  proof (cases "ds = []")
    case True
    then show ?thesis by simp
  next
    case False
    from Cons.IH [OF False] obtain i where i: "argmin ds = Some i" "i < length ds"
      "\<forall>j < length ds. ds ! i \<le> ds ! j" "\<forall>j < i. ds ! i < ds ! j" by blast
    show ?thesis
    proof (cases "d \<le> ds ! i")
      case True
      have "\<forall>j < length (d # ds). (d # ds) ! 0 \<le> (d # ds) ! j"
      proof (intro allI impI)
        fix j assume "j < length (d # ds)"
        then show "(d # ds) ! 0 \<le> (d # ds) ! j"
          using True i(3) by (cases j) (auto intro: order_trans)
      qed
      with True i(1) show ?thesis by simp
    next
      case False
      have below: "\<forall>j < length (d # ds). (d # ds) ! Suc i \<le> (d # ds) ! j"
      proof (intro allI impI)
        fix j assume "j < length (d # ds)"
        then show "(d # ds) ! Suc i \<le> (d # ds) ! j"
          using False i(3) by (cases j) auto
      qed
      have first: "\<forall>j < Suc i. (d # ds) ! Suc i < (d # ds) ! j"
      proof (intro allI impI)
        fix j assume "j < Suc i"
        then show "(d # ds) ! Suc i < (d # ds) ! j"
          using False i(4) by (cases j) auto
      qed
      from False i(1) i(2) below first show ?thesis by simp
    qed
  qed
qed

lemma those_map_Some:
  "(\<And>x. x \<in> set xs \<Longrightarrow> f x = Some (g x)) \<Longrightarrow> those (map f xs) = Some (map g xs)"
  by (induction xs) simp_all

lemma nearest_first_min:
  assumes "cs \<noteq> []"
  shows "\<exists>i. nearest p cs = Some i \<and> i < length cs \<and>
     (\<forall>j < length cs. distance p (cs ! i) \<le> distance p (cs ! j)) \<and>
     (\<forall>j < i. distance p (cs ! i) < distance p (cs ! j))"
proof -
  from assms have "map (distance p) cs \<noteq> []" by simp
  from argmin_first_min [OF this] obtain i where i: "argmin (map (distance p) cs) = Some i"
    "i < length cs"
    "\<forall>j < length (map (distance p) cs). map (distance p) cs ! i \<le> map (distance p) cs ! j"
    "\<forall>j < i. map (distance p) cs ! i < map (distance p) cs ! j" by auto
  have "\<forall>j < length cs. distance p (cs ! i) \<le> distance p (cs ! j)"
    using i(2) i(3) by simp
  moreover have "\<forall>j < i. distance p (cs ! i) < distance p (cs ! j)"
    using i(2) i(4) by simp
  ultimately show ?thesis using i(1) i(2) by (simp add: nearest_def)
qed

lemma find_clusters_nonempty:
  assumes "cs \<noteq> []"
  shows "find_clusters d cs = Some (map (\<lambda>p. the (nearest p cs)) d)"
  unfolding find_clusters_def
proof (rule those_map_Some)
  fix p
  from nearest_first_min [OF assms, of p] show "nearest p cs = Some (the (nearest p cs))"
    by auto
qed

text \<open>
  Claim C1. After the assignment phase of a step (the step taken while
  \<^verbatim>\<open>step_completed\<close> is true, with at least one centroid), every point of the dataset
  has an assignment; the assigned centroid exists, no centroid is strictly closer to the
  point in Euclidean distance than the assigned one, and every centroid of lower index is
  strictly farther, so that exact ties go to the lowest index.
\<close>

theorem assignment_is_nearest:
  assumes "step_completed km" and "centroids km \<noteq> []"
  shows "\<exists>a. clusters (Kmeans_step km) = Some a \<and> length a = length (kdata km) \<and>
     (\<forall>i < length (kdata km).
        a ! i < length (centroids (Kmeans_step km)) \<and>
        (\<forall>j < length (centroids (Kmeans_step km)).
           distance (kdata km ! i) (centroids (Kmeans_step km) ! (a ! i))
             \<le> distance (kdata km ! i) (centroids (Kmeans_step km) ! j)) \<and>
        (\<forall>j < a ! i.
           distance (kdata km ! i) (centroids (Kmeans_step km) ! (a ! i))
             < distance (kdata km ! i) (centroids (Kmeans_step km) ! j)))"
proof -
  let ?cs = "centroids km"
  let ?a = "map (\<lambda>p. the (nearest p ?cs)) (kdata km)"
  have cs: "centroids (Kmeans_step km) = ?cs"
    using assms(1) by (simp add: Kmeans_step_def Let_def)
  have cl: "clusters (Kmeans_step km) = Some ?a"
    using assms(1) find_clusters_nonempty [OF assms(2)] by (simp add: Kmeans_step_def Let_def)
  have "\<forall>i < length (kdata km).
        ?a ! i < length ?cs \<and>
        (\<forall>j < length ?cs.
           distance (kdata km ! i) (?cs ! (?a ! i)) \<le> distance (kdata km ! i) (?cs ! j)) \<and>
        (\<forall>j < ?a ! i.
           distance (kdata km ! i) (?cs ! (?a ! i)) < distance (kdata km ! i) (?cs ! j))"
  proof (intro allI impI)
    fix i assume i: "i < length (kdata km)"
    from nearest_first_min [OF assms(2), of "kdata km ! i"] obtain n where
      n: "nearest (kdata km ! i) ?cs = Some n" "n < length ?cs"
      "\<forall>j < length ?cs. distance (kdata km ! i) (?cs ! n) \<le> distance (kdata km ! i) (?cs ! j)"
      "\<forall>j < n. distance (kdata km ! i) (?cs ! n) < distance (kdata km ! i) (?cs ! j)"
      by blast
    have "?a ! i = n" using i n(1) by simp
    with n show "?a ! i < length ?cs \<and>
        (\<forall>j < length ?cs.
           distance (kdata km ! i) (?cs ! (?a ! i)) \<le> distance (kdata km ! i) (?cs ! j)) \<and>
        (\<forall>j < ?a ! i.
           distance (kdata km ! i) (?cs ! (?a ! i)) < distance (kdata km ! i) (?cs ! j))"
      by simp
  qed
  with cs cl show ?thesis by simp
qed

text \<open>On the example scenario the first step assigns the points to the centroids
  0, 0, 1, 1.\<close>

theorem assignment_is_nearest_witness:
  "step_completed example_km \<and> centroids example_km \<noteq> [] \<and>
   clusters (Kmeans_step example_km) = Some [0, 0, 1, 1] \<and>
   (\<exists>a. clusters (Kmeans_step example_km) = Some a \<and>
      length a = length (kdata example_km) \<and>
      (\<forall>i < length (kdata example_km).
        a ! i < length (centroids (Kmeans_step example_km)) \<and>
        (\<forall>j < length (centroids (Kmeans_step example_km)).
           distance (kdata example_km ! i) (centroids (Kmeans_step example_km) ! (a ! i))
             \<le> distance (kdata example_km ! i) (centroids (Kmeans_step example_km) ! j)) \<and>
        (\<forall>j < a ! i.
           distance (kdata example_km ! i) (centroids (Kmeans_step example_km) ! (a ! i))
             < distance (kdata example_km ! i) (centroids (Kmeans_step example_km) ! j))))"
proof -
  have h1: "step_completed example_km" by (simp add: example_km_def)
  have h2: "centroids example_km \<noteq> []" by (simp add: example_km_def)
  have v: "clusters (Kmeans_step example_km) = Some [0, 0, 1, 1]"
    by (simp add: example_km_def example_points_def Kmeans_step_def find_clusters_def
        nearest_def distance_def Let_def)
  from assignment_is_nearest [OF h1 h2] h1 h2 v show ?thesis by blast
qed

section \<open>Outcomes and what a method leaves untouched\<close>

lemma snd_and_then:
  "snd (and_then r f) = (if fst r = None then snd (f (snd r)) else snd r)"
  by (cases "fst r") (simp_all add: and_then_def)

lemma fst_and_then:
  "fst (and_then r f) = (if fst r = None then fst (f (snd r)) else fst r)"
  by (cases "fst r") (simp_all add: and_then_def)

lemma and_then_returns: "and_then (returns w) f = f w"
  by (simp add: and_then_def returns_def)

lemma replot_frame:
  "k_means (snd (replot w)) = k_means w"
  "numberOfClusters (snd (replot w)) = numberOfClusters w"
  "data (snd (replot w)) = data w"
  "attr_x (snd (replot w)) = attr_x w"
  "attr_y (snd (replot w)) = attr_y w"
  "autoPlay (snd (replot w)) = autoPlay w"
  "stepBackButton_disabled (snd (replot w)) = stepBackButton_disabled w"
  "sent (snd (replot w)) = sent w"
  "rng (snd (replot w)) = rng w"
  by (simp_all add: replot_def returns_def raises_def split: option.splits)

lemma send_data_frame:
  "k_means (snd (send_data w)) = k_means w"
  "numberOfClusters (snd (send_data w)) = numberOfClusters w"
  "data (snd (send_data w)) = data w"
  "attr_x (snd (send_data w)) = attr_x w"
  "attr_y (snd (send_data w)) = attr_y w"
  "autoPlay (snd (send_data w)) = autoPlay w"
  "stepBackButton_disabled (snd (send_data w)) = stepBackButton_disabled w"
  "scatter (snd (send_data w)) = scatter w"
  "rng (snd (send_data w)) = rng w"
  by (simp_all add: send_data_def send_def returns_def raises_def Let_def split: option.splits)

lemma replot_then_send_frame:
  "k_means (snd (and_then (replot w) send_data)) = k_means w"
  "numberOfClusters (snd (and_then (replot w) send_data)) = numberOfClusters w"
  "data (snd (and_then (replot w) send_data)) = data w"
  "attr_x (snd (and_then (replot w) send_data)) = attr_x w"
  "attr_y (snd (and_then (replot w) send_data)) = attr_y w"
  "autoPlay (snd (and_then (replot w) send_data)) = autoPlay w"
  "stepBackButton_disabled (snd (and_then (replot w) send_data)) = stepBackButton_disabled w"
  "rng (snd (and_then (replot w) send_data)) = rng w"
  by (simp_all add: snd_and_then replot_frame send_data_frame)

lemma selection_ok_same:
  "data v = data w \<Longrightarrow> attr_x v = attr_x w \<Longrightarrow> attr_y v = attr_y w \<Longrightarrow>
   selection_ok v = selection_ok w"
  by (cases "data w") (simp_all add: selection_ok_def selection_in_domain_def)

lemma selection_ok_replot_send:
  "selection_ok (snd (and_then (replot w) send_data)) = selection_ok w"
  by (rule selection_ok_same) (simp_all add: replot_then_send_frame)

lemma replot_returns: "k_means v \<noteq> None \<Longrightarrow> selection_ok v \<Longrightarrow> fst (replot v) = None"
  by (auto simp: replot_def returns_def selection_ok_def split: option.splits)

lemma send_data_returns:
  "k_means v = Some km \<Longrightarrow> clusters km = None \<Longrightarrow> fst (send_data v) = None"
  by (simp add: send_data_def returns_def)

lemma perform_all_append: "perform_all (xs @ ys) w = perform_all ys (perform_all xs w)"
  by (simp add: perform_all_def)

lemma funpow_invariant:
  "P w \<Longrightarrow> (\<And>v. P v \<Longrightarrow> P (f v)) \<Longrightarrow> P ((f ^^ m) w)"
  by (induction m) simp_all


lemma concat_x_y_selected:
  "data w = Some t \<Longrightarrow> selection_in_domain w t \<Longrightarrow>
   concat_x_y w = Inr (map (\<lambda>r. (r (attr_x w), r (attr_y w))) (rows t))"
  by (simp add: concat_x_y_def)


text \<open>The call of \<^verbatim>\<open>number_of_clusters_changed\<close> inside \<^verbatim>\<open>restart\<close> finds the
  engine that \<^verbatim>\<open>restart\<close> just created, so it does not call \<^verbatim>\<open>restart\<close> again.\<close>

lemma changed_via_any:
  "k_means w \<noteq> None \<Longrightarrow>
   number_of_clusters_changed_via f w = number_of_clusters_changed_via g w"
  by (cases "k_means w"; cases "data w")
     (simp_all add: number_of_clusters_changed_via_def Let_def)

lemma restart_calls_changed:
  "restart w =
     (case concat_x_y w of
        Inl e \<Rightarrow> raises e w
      | Inr d \<Rightarrow>
          and_then
            (and_then
              (number_of_clusters_changed
                (w\<lparr>k_means := Some (Kmeans_init d (rng w 0)), rng := (\<lambda>n. rng w (Suc n))\<rparr>))
              replot)
            (\<lambda>w2. send_data
               (w2\<lparr>centroidNumbersSpinner_disabled := False,
                  stepButton_text := ''Move centroids'',
                  stepBackButton_disabled := True\<rparr>)))"
proof (cases "concat_x_y w")
  case (Inl e)
  then show ?thesis by (simp add: restart_def)
next
  case (Inr d)
  have "number_of_clusters_changed
          (w\<lparr>k_means := Some (Kmeans_init d (rng w 0)), rng := (\<lambda>n. rng w (Suc n))\<rparr>) =
        number_of_clusters_changed_via returns
          (w\<lparr>k_means := Some (Kmeans_init d (rng w 0)), rng := (\<lambda>n. rng w (Suc n))\<rparr>)"
    unfolding number_of_clusters_changed_def by (rule changed_via_any) simp
  with Inr show ?thesis by (simp add: restart_def)
qed

section \<open>Steps and their undoing\<close>

lemma stepBack_step: "Kmeans_stepBack (Kmeans_step km) = km\<lparr>converged := False\<rparr>"
  by (simp add: Kmeans_stepBack_def Kmeans_step_def take_snapshot_def Let_def)

lemma history_step: "history (Kmeans_step km) = take_snapshot km # history km"
  by (simp add: Kmeans_step_def Let_def)

lemma stepBack_converged:
  "history km \<noteq> [] \<Longrightarrow> Kmeans_stepBack (km\<lparr>converged := b\<rparr>) = Kmeans_stepBack km"
  by (simp add: Kmeans_stepBack_def split: list.splits)

lemma stepBack_steps:
  "(Kmeans_stepBack ^^ n) ((Kmeans_step ^^ n) km) = (if n = 0 then km else km\<lparr>converged := False\<rparr>)"
proof (induction n arbitrary: km)
  case 0
  then show ?case by simp
next
  case (Suc n)
  have "(Kmeans_stepBack ^^ Suc n) ((Kmeans_step ^^ Suc n) km) =
        Kmeans_stepBack ((Kmeans_stepBack ^^ n) ((Kmeans_step ^^ n) (Kmeans_step km)))"
    by (simp add: funpow_swap1)
  also have "\<dots> = Kmeans_stepBack (Kmeans_step km)"
    by (simp add: Suc.IH stepBack_converged history_step)
  finally show ?case by (simp add: stepBack_step)
qed

lemma step_engine:
  "k_means (snd (step w)) = map_option Kmeans_step (k_means w)"
  by (cases "k_means w") (simp_all add: step_def raises_def snd_and_then replot_frame send_data_frame)

lemma step_back_engine:
  "k_means (snd (step_back w)) = map_option Kmeans_stepBack (k_means w)"
  by (cases "k_means w") (simp_all add: step_back_def raises_def snd_and_then replot_frame send_data_frame)

lemma steps_engine:
  "k_means (perform_all (replicate n Step) w) = map_option (Kmeans_step ^^ n) (k_means w)"
proof (induction n arbitrary: w)
  case 0
  then show ?case by (simp add: perform_all_def option.map_ident)
next
  case (Suc n)
  have "perform_all (replicate (Suc n) Step) w = perform_all (replicate n Step) (perform Step w)"
    by (simp add: perform_all_def)
  then show ?case
    by (simp add: Suc.IH step_engine option.map_comp funpow_swap1 comp_def)
qed

lemma step_backs_engine:
  "k_means (perform_all (replicate n Step_back) w) = map_option (Kmeans_stepBack ^^ n) (k_means w)"
proof (induction n arbitrary: w)
  case 0
  then show ?case by (simp add: perform_all_def option.map_ident)
next
  case (Suc n)
  have "perform_all (replicate (Suc n) Step_back) w =
        perform_all (replicate n Step_back) (perform Step_back w)"
    by (simp add: perform_all_def)
  then show ?case
    by (simp add: Suc.IH step_back_engine option.map_comp funpow_swap1 comp_def)
qed

lemma step_data: "data (snd (step w)) = data w"
  by (cases "k_means w")
     (simp_all add: step_def raises_def snd_and_then replot_frame send_data_frame)





section \<open>The loops of the spinner callback and restart\<close>

lemma add_loop_frame:
  "numberOfClusters ((add_random_centroid ^^ m) w) = numberOfClusters w \<and>
   data ((add_random_centroid ^^ m) w) = data w \<and>
   attr_x ((add_random_centroid ^^ m) w) = attr_x w \<and>
   attr_y ((add_random_centroid ^^ m) w) = attr_y w \<and>
   autoPlay ((add_random_centroid ^^ m) w) = autoPlay w \<and>
   stepBackButton_disabled ((add_random_centroid ^^ m) w) = stepBackButton_disabled w"
  by (induction m) (simp_all add: add_random_centroid_def split: option.splits)

lemma delete_loop_frame:
  "numberOfClusters ((delete_last_centroid ^^ m) w) = numberOfClusters w \<and>
   data ((delete_last_centroid ^^ m) w) = data w \<and>
   attr_x ((delete_last_centroid ^^ m) w) = attr_x w \<and>
   attr_y ((delete_last_centroid ^^ m) w) = attr_y w \<and>
   autoPlay ((delete_last_centroid ^^ m) w) = autoPlay w \<and>
   stepBackButton_disabled ((delete_last_centroid ^^ m) w) = stepBackButton_disabled w"
  by (induction m) (simp_all add: delete_last_centroid_def split: option.splits)

lemma add_step_engine:
  "k_means v = Some km \<Longrightarrow>
   k_means (add_random_centroid v) = Some (Kmeans_add_centroids None (rng v 0) km)"
  by (simp add: add_random_centroid_def)

lemma delete_step_engine:
  "k_means v = Some km \<Longrightarrow>
   k_means (delete_last_centroid v) = Some (Kmeans_delete_centroids km)"
  by (simp add: delete_last_centroid_def)

lemma add_loop_engine:
  "k_means w = Some km \<Longrightarrow>
   \<exists>km'. k_means ((add_random_centroid ^^ m) w) = Some km' \<and>
     Kmeans_k km' = Kmeans_k km + m \<and> history km' = history km \<and> clusters km' = clusters km"
  by (induction m)
     (auto simp: add_random_centroid_def Kmeans_add_centroids_def Kmeans_k_def)

lemma delete_loop_engine:
  "k_means w = Some km \<Longrightarrow> m < Kmeans_k km \<or> m = 0 \<Longrightarrow>
   \<exists>km'. k_means ((delete_last_centroid ^^ m) w) = Some km' \<and>
     Kmeans_k km' = Kmeans_k km - m \<and> history km' = history km \<and> clusters km' = clusters km"
proof (induction m)
  case 0
  then show ?case by simp
next
  case (Suc m)
  from Suc.prems have m: "m < Kmeans_k km \<or> m = 0" by auto
  from Suc.IH [OF Suc.prems(1) m] obtain km1 where
    km1: "k_means ((delete_last_centroid ^^ m) w) = Some km1"
    "Kmeans_k km1 = Kmeans_k km - m" "history km1 = history km" "clusters km1 = clusters km"
    by blast
  from Suc.prems(2) km1(2) have "1 < length (centroids km1)"
    by (simp add: Kmeans_k_def)
  with km1 delete_step_engine [OF km1(1)] show ?case
    by (simp add: Kmeans_delete_centroids_def Kmeans_k_def)
qed

lemma delete_loop_engine_any:
  "k_means w = Some km \<Longrightarrow>
   \<exists>km'. k_means ((delete_last_centroid ^^ m) w) = Some km' \<and>
     history km' = history km \<and> clusters km' = clusters km"
  by (induction m)
     (auto simp: delete_last_centroid_def Kmeans_delete_centroids_def)

lemma adjust_centroids_eq:
  "k_means w = Some km \<Longrightarrow> adjust_centroids w = and_then (replot (adjusted w km)) send_data"
  by (simp add: adjust_centroids_def)

lemma adjusted_frame:
  "numberOfClusters (adjusted w km) = numberOfClusters w \<and>
   data (adjusted w km) = data w \<and>
   attr_x (adjusted w km) = attr_x w \<and>
   attr_y (adjusted w km) = attr_y w \<and>
   autoPlay (adjusted w km) = autoPlay w \<and>
   stepBackButton_disabled (adjusted w km) = stepBackButton_disabled w"
  by (simp add: adjusted_def add_loop_frame delete_loop_frame)

lemma adjusted_engine:
  assumes "k_means w = Some km"
  shows "\<exists>km'. k_means (adjusted w km) = Some km' \<and> history km' = history km \<and>
     clusters km' = clusters km"
  using add_loop_engine [OF assms] delete_loop_engine_any [OF assms]
  by (simp add: adjusted_def) blast

lemma adjusted_count:
  assumes "k_means w = Some km" and "1 \<le> numberOfClusters w"
  shows "\<exists>km'. k_means (adjusted w km) = Some km' \<and> int (Kmeans_k km') = numberOfClusters w"
proof (cases "int (Kmeans_k km) < numberOfClusters w")
  case True
  from add_loop_engine [OF assms(1), of "nat (numberOfClusters w - int (Kmeans_k km))"]
  obtain km' where "k_means ((add_random_centroid ^^ nat (numberOfClusters w - int (Kmeans_k km))) w) = Some km'"
    "Kmeans_k km' = Kmeans_k km + nat (numberOfClusters w - int (Kmeans_k km))" by blast
  with True show ?thesis by (simp add: adjusted_def)
next
  case False
  let ?m = "nat (int (Kmeans_k km) - numberOfClusters w)"
  from False assms(2) have "?m < Kmeans_k km \<or> ?m = 0" by linarith
  from delete_loop_engine [OF assms(1) this]
  obtain km' where "k_means ((delete_last_centroid ^^ ?m) w) = Some km'"
    "Kmeans_k km' = Kmeans_k km - ?m" by blast
  with False assms(2) show ?thesis by (simp add: adjusted_def)
qed

lemma adjust_centroids_count:
  assumes "k_means w = Some km" and "1 \<le> numberOfClusters w"
  shows "\<exists>km'. k_means (snd (adjust_centroids w)) = Some km' \<and>
           int (Kmeans_k km') = numberOfClusters (snd (adjust_centroids w))"
  using adjusted_count [OF assms]
  by (simp add: adjust_centroids_eq [OF assms(1)] replot_then_send_frame adjusted_frame)

lemma adjust_centroids_frame:
  "numberOfClusters (snd (adjust_centroids w)) = numberOfClusters w \<and>
   data (snd (adjust_centroids w)) = data w \<and>
   attr_x (snd (adjust_centroids w)) = attr_x w \<and>
   attr_y (snd (adjust_centroids w)) = attr_y w \<and>
   autoPlay (snd (adjust_centroids w)) = autoPlay w \<and>
   stepBackButton_disabled (snd (adjust_centroids w)) = stepBackButton_disabled w"
  by (cases "k_means w")
     (simp_all add: adjust_centroids_eq replot_then_send_frame adjusted_frame,
      simp_all add: adjust_centroids_def raises_def)

lemma adjust_centroids_engine:
  "k_means w = Some km \<Longrightarrow> k_means (snd (adjust_centroids w)) = k_means (adjusted w km)"
  by (simp add: adjust_centroids_eq replot_then_send_frame)

lemma adjust_centroids_fresh:
  assumes "k_means w = Some km" and "clusters km = None" and "selection_ok w"
  shows "fst (adjust_centroids w) = None \<and>
     (\<exists>km'. k_means (snd (adjust_centroids w)) = Some km' \<and> history km' = history km \<and>
        clusters km' = None)"
proof -
  from adjusted_engine [OF assms(1)] assms(2) obtain km' where
    km': "k_means (adjusted w km) = Some km'" "history km' = history km" "clusters km' = None"
    by auto
  have "selection_ok (adjusted w km)"
    using assms(3) selection_ok_same [of "adjusted w km" w] by (simp add: adjusted_frame)
  then have r: "fst (replot (adjusted w km)) = None" using km'(1) by (simp add: replot_returns)
  have "k_means (snd (replot (adjusted w km))) = Some km'" using km'(1) by (simp add: replot_frame)
  then have s: "fst (send_data (snd (replot (adjusted w km)))) = None"
    using km'(3) by (rule send_data_returns)
  show ?thesis
    using r s km'
    by (simp add: adjust_centroids_eq [OF assms(1)] fst_and_then replot_then_send_frame)
qed


lemma changed_in_restart:
  assumes "data w = Some t" and "k_means w = Some km" and "clusters km = None"
    and "selection_ok w"
  shows "fst (number_of_clusters_changed_via returns w) = None \<and>
     (\<exists>km'. k_means (snd (number_of_clusters_changed_via returns w)) = Some km' \<and>
        history km' = history km \<and> clusters km' = None \<and>
        (1 \<le> numberOfClusters w \<and> numberOfClusters w \<le> int (length (rows t)) \<longrightarrow>
           int (Kmeans_k km') = numberOfClusters w)) \<and>
     numberOfClusters (snd (number_of_clusters_changed_via returns w)) = numberOfClusters w \<and>
     data (snd (number_of_clusters_changed_via returns w)) = data w \<and>
     attr_x (snd (number_of_clusters_changed_via returns w)) = attr_x w \<and>
     attr_y (snd (number_of_clusters_changed_via returns w)) = attr_y w \<and>
     autoPlay (snd (number_of_clusters_changed_via returns w)) = autoPlay w"
proof (cases "numberOfClusters w > int (length (rows t))")
  case True
  with assms show ?thesis
    by (simp add: number_of_clusters_changed_via_def returns_def set_empty_plot_def)
next
  case False
  let ?w1 = "w\<lparr>info := [], commandsBox_disabled := False\<rparr>"
  have e: "number_of_clusters_changed_via returns w = adjust_centroids ?w1"
    using assms(1,2) False
    by (simp add: number_of_clusters_changed_via_def Let_def and_then_returns)
  have k1: "k_means ?w1 = Some km" using assms(2) by simp
  have s1: "selection_ok ?w1" using assms(4) selection_ok_same [of ?w1 w] by simp
  from adjust_centroids_fresh [OF k1 assms(3) s1] obtain km' where
    f: "fst (adjust_centroids ?w1) = None" "k_means (snd (adjust_centroids ?w1)) = Some km'"
    "history km' = history km" "clusters km' = None" by blast
  have c: "1 \<le> numberOfClusters w \<Longrightarrow> int (Kmeans_k km') = numberOfClusters w"
  proof -
    assume "1 \<le> numberOfClusters w"
    then have "1 \<le> numberOfClusters ?w1" by simp
    from adjust_centroids_count [OF k1 this] f(2) show ?thesis
      by (simp add: adjust_centroids_frame)
  qed
  show ?thesis
    using f c by (simp add: e adjust_centroids_frame)
qed

lemma restart_with_data:
  assumes "data w = Some t" and "selection_in_domain w t"
  shows "fst (restart w) = None \<and> stepBackButton_disabled (snd (restart w)) \<and>
     (\<exists>km'. k_means (snd (restart w)) = Some km' \<and> history km' = [] \<and> clusters km' = None \<and>
        (1 \<le> numberOfClusters w \<and> numberOfClusters w \<le> int (length (rows t)) \<longrightarrow>
           int (Kmeans_k km') = numberOfClusters w)) \<and>
     numberOfClusters (snd (restart w)) = numberOfClusters w \<and>
     data (snd (restart w)) = data w \<and> attr_x (snd (restart w)) = attr_x w \<and>
     attr_y (snd (restart w)) = attr_y w \<and> autoPlay (snd (restart w)) = autoPlay w"
proof -
  let ?d = "map (\<lambda>r. (r (attr_x w), r (attr_y w))) (rows t)"
  let ?w0 = "w\<lparr>k_means := Some (Kmeans_init ?d (rng w 0)), rng := (\<lambda>n. rng w (Suc n))\<rparr>"
  let ?a = "number_of_clusters_changed_via returns ?w0"
  let ?f = "\<lambda>w2. send_data
               (w2\<lparr>centroidNumbersSpinner_disabled := False,
                  stepButton_text := ''Move centroids'',
                  stepBackButton_disabled := True\<rparr>)"
  have e: "restart w = and_then (and_then ?a replot) ?f"
    using concat_x_y_selected [OF assms] by (simp add: restart_def)
  have d0: "data ?w0 = Some t" using assms(1) by simp
  have k0: "k_means ?w0 = Some (Kmeans_init ?d (rng w 0))" by simp
  have c0: "clusters (Kmeans_init ?d (rng w 0)) = None" by (simp add: Kmeans_init_def)
  have s0: "selection_ok ?w0"
    using assms by (simp add: selection_ok_def selection_in_domain_def)
  from changed_in_restart [OF d0 k0 c0 s0] obtain km' where
    a: "fst ?a = None" "k_means (snd ?a) = Some km'" "history km' = []" "clusters km' = None"
       "1 \<le> numberOfClusters w \<and> numberOfClusters w \<le> int (length (rows t)) \<longrightarrow>
           int (Kmeans_k km') = numberOfClusters w"
       "numberOfClusters (snd ?a) = numberOfClusters w" "data (snd ?a) = data w"
       "attr_x (snd ?a) = attr_x w" "attr_y (snd ?a) = attr_y w"
       "autoPlay (snd ?a) = autoPlay w"
    by (auto simp: Kmeans_init_def)
  have sa: "selection_ok (snd ?a)"
    using s0 selection_ok_same [of "snd ?a" ?w0] a(7,8,9) by simp
  have r: "fst (replot (snd ?a)) = None" using a(2) sa by (simp add: replot_returns)
  have ar: "fst (and_then ?a replot) = None" using a(1) r by (simp add: fst_and_then)
  have sar: "snd (and_then ?a replot) = snd (replot (snd ?a))" using a(1) by (simp add: snd_and_then)
  let ?w3 = "(snd (replot (snd ?a)))\<lparr>centroidNumbersSpinner_disabled := False,
                  stepButton_text := ''Move centroids'',
                  stepBackButton_disabled := True\<rparr>"
  have e2: "restart w = send_data ?w3"
    using ar sar by (simp add: e and_then_def)
  have k3: "k_means ?w3 = Some km'" using a(2) by (simp add: replot_frame)
  have s: "fst (send_data ?w3) = None" using k3 a(4) by (rule send_data_returns)
  show ?thesis
    using s k3 a(3-10) by (simp add: e2 send_data_frame replot_frame)
qed

lemma restart_engine:
  assumes "data w = Some t" and "selection_in_domain w t"
  shows "k_means (snd (restart w)) =
     (if numberOfClusters w > int (length (rows t))
      then Some (Kmeans_init (map (\<lambda>r. (r (attr_x w), r (attr_y w))) (rows t)) (rng w 0))
      else k_means (adjusted
             (w\<lparr>k_means :=
                  Some (Kmeans_init (map (\<lambda>r. (r (attr_x w), r (attr_y w))) (rows t)) (rng w 0)),
                rng := (\<lambda>n. rng w (Suc n)), info := [], commandsBox_disabled := False\<rparr>)
             (Kmeans_init (map (\<lambda>r. (r (attr_x w), r (attr_y w))) (rows t)) (rng w 0))))"
proof -
  let ?km = "Kmeans_init (map (\<lambda>r. (r (attr_x w), r (attr_y w))) (rows t)) (rng w 0)"
  let ?w0 = "w\<lparr>k_means := Some ?km, rng := (\<lambda>n. rng w (Suc n))\<rparr>"
  have "k_means (snd (restart w)) = k_means (snd (number_of_clusters_changed_via returns ?w0))"
    using concat_x_y_selected [OF assms]
    by (simp add: restart_def snd_and_then replot_frame send_data_frame)
  also have "\<dots> = (if numberOfClusters w > int (length (rows t))
      then Some ?km
      else k_means (adjusted (?w0\<lparr>info := [], commandsBox_disabled := False\<rparr>) ?km))"
    using assms(1)
    by (simp add: number_of_clusters_changed_via_def set_empty_plot_def Let_def
        and_then_returns adjust_centroids_def replot_then_send_frame)
       (simp add: returns_def)
  finally show ?thesis by simp
qed

lemma changed_with_engine:
  assumes "data w = Some t" and "\<not> numberOfClusters w > int (length (rows t))"
    and "k_means w = Some km"
  shows "number_of_clusters_changed w =
           adjust_centroids (w\<lparr>info := [], commandsBox_disabled := False\<rparr>)"
  using assms
  by (simp add: number_of_clusters_changed_def number_of_clusters_changed_via_def Let_def
      and_then_returns)


section \<open>The example states\<close>

lemma example_data: "data (example_widget n) = Some example_table"
  by (simp add: example_widget_def)

lemma example_fields:
  "\<not> autoPlay (example_widget n)" "stepBackButton_disabled (example_widget n)"
  "k_means (example_widget n) = None" "numberOfClusters (example_widget n) = n"
  "attr_x (example_widget n) = ''x''" "attr_y (example_widget n) = ''y''"
  "rng (example_widget n) = example_rng"
  by (simp_all add: example_widget_def new_widget_def)

lemma example_selection: "selection_in_domain (example_widget n) example_table"
  by (simp add: selection_in_domain_def example_fields domain_names_def example_table_def)

lemma example_rows: "length (rows example_table) = 4"
  by (simp add: example_table_def)

lemma example_projection:
  "map (\<lambda>r. (r ''x'', r ''y'')) (rows example_table) = example_points"
  by (simp add: example_table_def example_row_def example_points_def)

lemma example_set_data:
  "set_data (Some example_table) (new_widget n example_rng) = restart (example_widget n)"
  by (simp add: set_data_def example_widget_def example_table_def is_continuous_def
      is_primitive_def item_text_def Let_def)

lemma example_restart:
  "k_means (snd (restart (example_widget 2))) = Some example_km"
  by (simp add: restart_engine [OF example_data example_selection] example_fields
      example_rows example_projection adjusted_def Kmeans_k_def Kmeans_init_def
      add_random_centroid_def Kmeans_add_centroids_def example_rng_def example_km_def)

lemma example_restart_zero:
  "k_means (snd (restart (example_widget 0))) = Some (Kmeans_init example_points (0, 0))"
  by (simp add: restart_engine [OF example_data example_selection] example_fields
      example_rows example_projection adjusted_def Kmeans_k_def Kmeans_init_def
      delete_last_centroid_def Kmeans_delete_centroids_def example_rng_def)


lemma example_session_restart: "example_session = snd (restart (example_widget 2))"
  by (simp add: example_session_def example_set_data)

lemma example_session_engine: "k_means example_session = Some example_km"
  by (simp add: example_session_restart example_restart)

lemma example_session_fields:
  "\<not> autoPlay example_session" "stepBackButton_disabled example_session"
  "data example_session = Some example_table" "numberOfClusters example_session = 2"
  "attr_x example_session = ''x''" "attr_y example_session = ''y''"
  using restart_with_data [OF example_data example_selection, of 2]
  by (simp_all add: example_session_restart example_fields example_data)


lemma example_step:
  "Kmeans_step example_km =
     example_km\<lparr>clusters := Some [0, 0, 1, 1], step_completed := False,
        history := [take_snapshot example_km]\<rparr>"
  by (simp add: example_km_def example_points_def Kmeans_step_def find_clusters_def
      nearest_def distance_def Let_def)

lemma example_step_fields:
  "centroids (Kmeans_step example_km) = [(0, 0), (10, 0)]"
  "\<not> step_completed (Kmeans_step example_km)"
  "clusters (Kmeans_step example_km) = Some [0, 0, 1, 1]"
  "Kmeans_k (Kmeans_step example_km) = 2"
proof -
  have c: "centroids example_km = [(0, 0), (10, 0)]" by (simp add: example_km_def)
  show "centroids (Kmeans_step example_km) = [(0, 0), (10, 0)]" by (simp add: example_step c)
  show "\<not> step_completed (Kmeans_step example_km)" by (simp add: example_step)
  show "clusters (Kmeans_step example_km) = Some [0, 0, 1, 1]" by (simp add: example_step)
  show "Kmeans_k (Kmeans_step example_km) = 2" by (simp add: example_step Kmeans_k_def c)
qed

lemma example_assigned_engine: "k_means example_assigned = Some (Kmeans_step example_km)"
  by (simp add: example_assigned_def step_engine example_session_engine)

section \<open>Step back undoes step\<close>

text \<open>
  Claim C2. In a session with an engine, and so in a freshly restarted one, \<open>n\<close> steps
  followed by \<open>n\<close> steps back leave the engine with exactly the centroids, the
  assignments, the phase and the history it started with, for every \<open>n\<close>. A step back on
  a non-empty history removes exactly its most recent snapshot and restores the
  centroids, the assignments and the phase of that snapshot.
\<close>

theorem step_back_restores:
  assumes "k_means w = Some km"
  shows "(\<exists>km'. k_means (perform_all (replicate n Step @ replicate n Step_back) w) = Some km' \<and>
            centroids km' = centroids km \<and> clusters km' = clusters km \<and>
            step_completed km' = step_completed km \<and> history km' = history km) \<and>
         (\<forall>s h. history km = s # h \<longrightarrow>
            (\<exists>km'. k_means (perform Step_back w) = Some km' \<and> history km' = h \<and>
               centroids km' = snap_centroids s \<and> clusters km' = snap_clusters s \<and>
               step_completed km' = snap_step_completed s))"
proof
  have "k_means (perform_all (replicate n Step @ replicate n Step_back) w) =
        Some ((Kmeans_stepBack ^^ n) ((Kmeans_step ^^ n) km))"
    by (simp add: perform_all_append step_backs_engine steps_engine assms)
  then show "\<exists>km'. k_means (perform_all (replicate n Step @ replicate n Step_back) w) = Some km' \<and>
            centroids km' = centroids km \<and> clusters km' = clusters km \<and>
            step_completed km' = step_completed km \<and> history km' = history km"
    by (simp add: stepBack_steps)
next
  show "\<forall>s h. history km = s # h \<longrightarrow>
            (\<exists>km'. k_means (perform Step_back w) = Some km' \<and> history km' = h \<and>
               centroids km' = snap_centroids s \<and> clusters km' = snap_clusters s \<and>
               step_completed km' = snap_step_completed s)"
    by (simp add: step_back_engine assms Kmeans_stepBack_def)
qed

text \<open>On the freshly restarted example session, three steps and three steps back; and
  the step back after its first step.\<close>

theorem step_back_restores_witness:
  "k_means example_session = Some example_km \<and>
   k_means example_assigned = Some (Kmeans_step example_km) \<and>
   history (Kmeans_step example_km) = [take_snapshot example_km] \<and>
   (\<exists>km'. k_means (perform_all (replicate 3 Step @ replicate 3 Step_back) example_session)
              = Some km' \<and>
      centroids km' = [(0, 0), (10, 0)] \<and> clusters km' = None \<and>
      step_completed km' \<and> history km' = []) \<and>
   (\<exists>km'. k_means (perform Step_back example_assigned) = Some km' \<and> history km' = [] \<and>
      centroids km' = [(0, 0), (10, 0)] \<and> clusters km' = None \<and> step_completed km')"
proof -
  have h: "history (Kmeans_step example_km) = [take_snapshot example_km]"
    by (simp add: history_step example_km_def)
  have a: "\<exists>km'. k_means (perform_all (replicate 3 Step @ replicate 3 Step_back) example_session)
              = Some km' \<and>
      centroids km' = [(0, 0), (10, 0)] \<and> clusters km' = None \<and>
      step_completed km' \<and> history km' = []"
    using step_back_restores [OF example_session_engine, of 3]
    by (simp add: example_km_def)
  have b: "\<exists>km'. k_means (perform Step_back example_assigned) = Some km' \<and> history km' = [] \<and>
      centroids km' = [(0, 0), (10, 0)] \<and> clusters km' = None \<and> step_completed km'"
    using step_back_restores [OF example_assigned_engine, of 0] h
    by (simp add: take_snapshot_def example_km_def)
  from a b h example_session_engine example_assigned_engine show ?thesis by blast
qed

section \<open>At least one centroid\<close>

lemma length_groups: "length (centroids_belonging_points km) = length (centroids km)"
  by (simp add: centroids_belonging_points_def split: option.splits)

lemma length_move_to_means: "length (move_to_means km) = length (centroids km)"
  by (simp add: move_to_means_def length_groups)

lemma Kmeans_ok_init: "Kmeans_ok (Kmeans_init d r)"
  by (simp add: Kmeans_ok_def Kmeans_init_def)

lemma Kmeans_ok_step: "Kmeans_ok km \<Longrightarrow> Kmeans_ok (Kmeans_step km)"
proof -
  assume a: "Kmeans_ok km"
  then have "move_to_means km \<noteq> []"
    using length_move_to_means [of km] by (auto simp: Kmeans_ok_def)
  with a show ?thesis
    by (simp add: Kmeans_ok_def Kmeans_step_def take_snapshot_def Let_def)
qed

lemma Kmeans_ok_stepBack: "Kmeans_ok km \<Longrightarrow> Kmeans_ok (Kmeans_stepBack km)"
  by (auto simp: Kmeans_ok_def Kmeans_stepBack_def split: list.splits)

lemma Kmeans_ok_add: "Kmeans_ok km \<Longrightarrow> Kmeans_ok (Kmeans_add_centroids pos r km)"
  by (simp add: Kmeans_ok_def Kmeans_add_centroids_def)

lemma Kmeans_ok_delete: "Kmeans_ok km \<Longrightarrow> Kmeans_ok (Kmeans_delete_centroids km)"
proof -
  assume a: "Kmeans_ok km"
  have "1 < length (centroids km) \<Longrightarrow> butlast (centroids km) \<noteq> []"
    by (cases "centroids km" rule: rev_cases) auto
  with a show ?thesis
    by (auto simp: Kmeans_ok_def Kmeans_delete_centroids_def)
qed

lemma Kmeans_ok_move: "Kmeans_ok km \<Longrightarrow> Kmeans_ok (Kmeans_move_centroid i x y km)"
  by (simp add: Kmeans_ok_def Kmeans_move_centroid_def)

lemma Kmeans_ok_count: "Kmeans_ok km \<Longrightarrow> 1 \<le> Kmeans_k km"
  by (cases "centroids km") (simp_all add: Kmeans_ok_def Kmeans_k_def)

lemma engine_ok_add: "engine_ok w \<Longrightarrow> engine_ok (add_random_centroid w)"
  by (auto simp: engine_ok_def add_random_centroid_def Kmeans_ok_add split: option.splits)

lemma engine_ok_delete: "engine_ok w \<Longrightarrow> engine_ok (delete_last_centroid w)"
  by (auto simp: engine_ok_def delete_last_centroid_def Kmeans_ok_delete split: option.splits)

lemma engine_ok_replot_send:
  "engine_ok (snd (and_then (replot w) send_data)) = engine_ok w"
  by (simp add: engine_ok_def replot_then_send_frame)

lemma engine_ok_adjust: "engine_ok w \<Longrightarrow> engine_ok (snd (adjust_centroids w))"
proof (cases "k_means w")
  case None
  assume "engine_ok w"
  with None show ?thesis by (simp add: adjust_centroids_def raises_def)
next
  case (Some km)
  assume a: "engine_ok w"
  have "engine_ok ((add_random_centroid ^^ m) w)" for m
    using a by (rule funpow_invariant) (rule engine_ok_add)
  moreover have "engine_ok ((delete_last_centroid ^^ m) w)" for m
    using a by (rule funpow_invariant) (rule engine_ok_delete)
  ultimately show ?thesis
    using Some by (simp add: adjust_centroids_def adjusted_def engine_ok_replot_send)
qed

lemma engine_ok_via:
  assumes "engine_ok w" and "\<And>v. engine_ok v \<Longrightarrow> engine_ok (snd (restart_method v))"
  shows "engine_ok (snd (number_of_clusters_changed_via restart_method w))"
proof (cases "data w")
  case None
  with assms(1) show ?thesis
    by (simp add: number_of_clusters_changed_via_def raises_def)
next
  case (Some t)
  show ?thesis
  proof (cases "numberOfClusters w > int (length (rows t))")
    case True
    with Some assms(1) show ?thesis
      by (simp add: number_of_clusters_changed_via_def returns_def set_empty_plot_def
          engine_ok_def)
  next
    case False
    let ?w1 = "w\<lparr>info := [], commandsBox_disabled := False\<rparr>"
    let ?r = "if k_means ?w1 = None then restart_method ?w1 else returns ?w1"
    have ok1: "engine_ok ?w1" using assms(1) by (simp add: engine_ok_def)
    have okr: "engine_ok (snd ?r)" using ok1 assms(2) [OF ok1] by (simp add: returns_def)
    have "number_of_clusters_changed_via restart_method w = and_then ?r adjust_centroids"
      using Some False by (simp add: number_of_clusters_changed_via_def Let_def)
    then show ?thesis
      using okr by (simp add: snd_and_then engine_ok_adjust)
  qed
qed

lemma engine_ok_restart: "engine_ok w \<Longrightarrow> engine_ok (snd (restart w))"
proof (cases "concat_x_y w")
  case (Inl e)
  assume "engine_ok w"
  with Inl show ?thesis by (simp add: restart_def raises_def)
next
  case (Inr d)
  let ?w0 = "w\<lparr>k_means := Some (Kmeans_init d (rng w 0)), rng := (\<lambda>n. rng w (Suc n))\<rparr>"
  let ?a = "number_of_clusters_changed_via returns ?w0"
  have "engine_ok ?w0" by (simp add: engine_ok_def Kmeans_ok_init)
  then have a: "engine_ok (snd ?a)"
    by (rule engine_ok_via) (simp add: returns_def)
  have k: "k_means (snd (restart w)) = k_means (snd ?a)"
    using Inr
    by (simp add: restart_def snd_and_then replot_frame send_data_frame)
  show ?thesis using a by (simp add: engine_ok_def k)
qed

lemma engine_ok_changed: "engine_ok w \<Longrightarrow> engine_ok (snd (number_of_clusters_changed w))"
  unfolding number_of_clusters_changed_def
  by (rule engine_ok_via) (simp_all add: engine_ok_restart)

lemma engine_ok_set_data: "engine_ok w \<Longrightarrow> engine_ok (snd (set_data d w))"
proof (cases d)
  case None
  assume "engine_ok w"
  with None show ?thesis
    by (simp add: set_data_def returns_def set_empty_plot_def engine_ok_def)
next
  case (Some t)
  assume a: "engine_ok w"
  show ?thesis
  proof (cases "length (filter is_continuous (domain_attributes t)) < 2")
    case True
    with Some a show ?thesis
      by (simp add: set_data_def returns_def set_empty_plot_def engine_ok_def)
  next
    case False
    with Some a show ?thesis
      by (simp add: set_data_def Let_def) (rule engine_ok_restart, simp add: engine_ok_def)
  qed
qed

lemma engine_ok_perform: "engine_ok w \<Longrightarrow> engine_ok (perform op w)"
proof (cases op)
  case (Set_data d)
  assume "engine_ok w"
  with Set_data show ?thesis by (simp add: engine_ok_set_data)
next
  case Restart
  assume "engine_ok w"
  with Restart show ?thesis by (simp add: engine_ok_restart)
next
  case (Spinner n)
  assume "engine_ok w"
  then have "engine_ok (w\<lparr>numberOfClusters := n\<rparr>)" by (simp add: engine_ok_def)
  with Spinner show ?thesis by (simp add: engine_ok_changed)
next
  case (Chart_click x y)
  assume "engine_ok w"
  with Chart_click show ?thesis
    by (auto simp: engine_ok_def graph_clicked_def returns_def replot_then_send_frame
        Kmeans_ok_add split: option.splits)
next
  case (Centroid_drop i x y)
  assume "engine_ok w"
  with Centroid_drop show ?thesis
    by (auto simp: engine_ok_def centroid_dropped_def raises_def replot_then_send_frame
        Kmeans_ok_move split: option.splits)
next
  case Step
  assume "engine_ok w"
  with Step show ?thesis
    by (cases "k_means w") (simp_all add: engine_ok_def step_engine Kmeans_ok_step)
next
  case Step_back
  assume "engine_ok w"
  with Step_back show ?thesis
    by (cases "k_means w") (simp_all add: engine_ok_def step_back_engine Kmeans_ok_stepBack)
next
  case Auto_play
  assume "engine_ok w"
  with Auto_play show ?thesis
    by (simp add: engine_ok_def auto_play_def stop_auto_play_def returns_def Let_def)
next
  case Stop_auto_play
  assume "engine_ok w"
  with Stop_auto_play show ?thesis
    by (simp add: engine_ok_def stop_auto_play_def returns_def)
qed

lemma engine_ok_perform_all: "engine_ok w \<Longrightarrow> engine_ok (perform_all ops w)"
  unfolding perform_all_def
  by (induction ops arbitrary: w) (simp_all add: engine_ok_perform)

text \<open>
  Claim C3. From a widget without an engine, as the constructor leaves it, or from any
  widget whose engine has at least one centroid now and in its history, every sequence
  of operations (new input, restart, spinner change, chart click, centroid drop, step,
  step back, autoplay on and off) ends in a widget that has no engine or an engine with
  at least one centroid: the deletion that would remove the last centroid does nothing.
\<close>

theorem centroid_count_at_least_one:
  assumes "engine_ok w"
  shows "engine_ok (perform_all ops w) \<and>
         (\<forall>km. k_means (perform_all ops w) = Some km \<longrightarrow> 1 \<le> Kmeans_k km)"
proof -
  have ok: "engine_ok (perform_all ops w)" using assms by (rule engine_ok_perform_all)
  have "\<forall>km. k_means (perform_all ops w) = Some km \<longrightarrow> 1 \<le> Kmeans_k km"
  proof (intro allI impI)
    fix km assume "k_means (perform_all ops w) = Some km"
    with ok have "Kmeans_ok km" by (simp add: engine_ok_def)
    then show "1 \<le> Kmeans_k km" by (rule Kmeans_ok_count)
  qed
  with ok show ?thesis by simp
qed

theorem centroid_count_at_least_one_witness:
  "engine_ok (new_widget 0 example_rng) \<and>
   engine_ok (perform_all
      [Set_data (Some example_table), Step, Step, Chart_click 5 5, Step_back, Spinner 1]
      (new_widget 0 example_rng)) \<and>
   k_means (perform_all [Set_data (Some example_table)] (new_widget 0 example_rng)) =
      Some (Kmeans_init example_points (0, 0)) \<and>
   1 \<le> Kmeans_k (Kmeans_init example_points (0, 0))"
proof -
  have h: "engine_ok (new_widget 0 example_rng)" by (simp add: engine_ok_def new_widget_def)
  have k: "k_means (perform_all [Set_data (Some example_table)] (new_widget 0 example_rng)) =
      Some (Kmeans_init example_points (0, 0))"
    by (simp add: perform_all_def example_set_data example_restart_zero)
  from centroid_count_at_least_one [OF h, of "[Set_data (Some example_table)]"] k
  have one: "1 \<le> Kmeans_k (Kmeans_init example_points (0, 0))" by simp
  from centroid_count_at_least_one
    [OF h, of "[Set_data (Some example_table), Step, Step, Chart_click 5 5, Step_back,
                Spinner 1]"]
    h k one
  show ?thesis by blast
qed

section \<open>Clicking into the chart\<close>

text \<open>
  Claim C4. \<^verbatim>\<open>graph_clicked(x, y)\<close> without an engine, or with an engine whose
  \<^verbatim>\<open>step_completed\<close> is false, returns and leaves the whole widget as it was: no
  centroid is added and \<^verbatim>\<open>numberOfClusters\<close> is unchanged. With an engine whose
  \<^verbatim>\<open>step_completed\<close> is true, exactly one centroid, at (x, y), is appended to the
  centroids and \<^verbatim>\<open>numberOfClusters\<close> grows by exactly 1.
\<close>

theorem graph_clicked_gate:
  "(k_means w = None \<longrightarrow> graph_clicked x y w = (None, w)) \<and>
   (\<forall>km. k_means w = Some km \<and> \<not> step_completed km \<longrightarrow> graph_clicked x y w = (None, w)) \<and>
   (\<forall>km. k_means w = Some km \<and> step_completed km \<longrightarrow>
      (\<exists>km'. k_means (snd (graph_clicked x y w)) = Some km' \<and>
         centroids km' = centroids km @ [(x, y)] \<and>
         Kmeans_k km' = Kmeans_k km + 1) \<and>
      numberOfClusters (snd (graph_clicked x y w)) = numberOfClusters w + 1)"
  by (simp add: graph_clicked_def returns_def replot_then_send_frame
      Kmeans_add_centroids_def Kmeans_k_def)

theorem graph_clicked_gate_witness:
  "k_means (example_widget 2) = None \<and>
   graph_clicked 5 5 (example_widget 2) = (None, example_widget 2) \<and>
   k_means example_assigned = Some (Kmeans_step example_km) \<and>
   \<not> step_completed (Kmeans_step example_km) \<and>
   graph_clicked 5 5 example_assigned = (None, example_assigned) \<and>
   k_means example_session = Some example_km \<and> step_completed example_km \<and>
   map_option centroids (k_means (snd (graph_clicked 5 5 example_session)))
     = Some [(0, 0), (10, 0), (5, 5)] \<and>
   numberOfClusters (snd (graph_clicked 5 5 example_session)) = 3"
proof -
  have n: "k_means (example_widget 2) = None" by (rule example_fields)
  have s: "\<not> step_completed (Kmeans_step example_km)" by (rule example_step_fields)
  have c: "step_completed example_km" by (simp add: example_km_def)
  have a: "graph_clicked 5 5 (example_widget 2) = (None, example_widget 2)"
    using graph_clicked_gate [of "example_widget 2" 5 5] n by simp
  have b: "graph_clicked 5 5 example_assigned = (None, example_assigned)"
    using graph_clicked_gate [of example_assigned 5 5] example_assigned_engine s by simp
  have d: "map_option centroids (k_means (snd (graph_clicked 5 5 example_session)))
     = Some [(0, 0), (10, 0), (5, 5)] \<and>
     numberOfClusters (snd (graph_clicked 5 5 example_session)) = 3"
    using graph_clicked_gate [of example_session 5 5] example_session_engine c
    by (auto simp: example_session_fields example_km_def)
  from n s c a b d example_assigned_engine example_session_engine show ?thesis by blast
qed

section \<open>More clusters than points\<close>

text \<open>
  Claim C5. When the widget holds a table and \<^verbatim>\<open>numberOfClusters\<close> exceeds its number
  of rows, \<^verbatim>\<open>number_of_clusters_changed\<close> returns after setting the message, clearing
  the plot and disabling the command box, and changes nothing else: the engine, and so
  its centroid count, is the one from before the call.
\<close>

theorem too_many_clusters_rejected:
  assumes "data w = Some t" and "numberOfClusters w > int (length (rows t))"
  shows "number_of_clusters_changed w =
           (None, w\<lparr>info := too_few_points, scatter := Cleared, commandsBox_disabled := True\<rparr>) \<and>
         k_means (snd (number_of_clusters_changed w)) = k_means w"
  using assms
  by (simp add: number_of_clusters_changed_def number_of_clusters_changed_via_def
      returns_def set_empty_plot_def)

theorem too_many_clusters_rejected_witness:
  "data (example_widget 5) = Some example_table \<and>
   numberOfClusters (example_widget 5) > int (length (rows example_table)) \<and>
   number_of_clusters_changed (example_widget 5) =
     (None, (example_widget 5)\<lparr>info := too_few_points, scatter := Cleared,
        commandsBox_disabled := True\<rparr>) \<and>
   k_means (snd (number_of_clusters_changed (example_widget 5))) = None"
proof -
  have h1: "data (example_widget 5) = Some example_table" by (rule example_data)
  have h2: "numberOfClusters (example_widget 5) > int (length (rows example_table))"
    by (simp add: example_fields example_rows)
  from too_many_clusters_rejected [OF h1 h2] h1 h2 show ?thesis
    by (simp add: example_fields)
qed

section \<open>The autoplay loop\<close>

lemma run_from_first_exit:
  assumes "\<forall>j < n. loop_condition (view (i + j))"
    and "\<not> loop_condition (view (i + n))" and "k_means (view (i + n)) \<noteq> None"
  shows "run_from view i tr =
     Some (None, tr @ concat (replicate n [Emit ''step()'', Sleep 1]) @ [Emit ''stop_auto_play()''])"
  using assms
proof (induction n arbitrary: i tr)
  case 0
  then show ?case
    by (subst run_from.simps) (auto simp: loop_condition_def split: option.splits)
next
  case (Suc n)
  from Suc.prems(1) have c: "loop_condition (view i)" by (metis add.right_neutral zero_less_Suc)
  have a: "\<forall>j < n. loop_condition (view (Suc i + j))"
    using Suc.prems(1) by (metis Suc_less_eq add_Suc_right add_Suc)
  have b: "\<not> loop_condition (view (Suc i + n))" "k_means (view (Suc i + n)) \<noteq> None"
    using Suc.prems(2,3) by simp_all
  have "run_from view i tr = run_from view (Suc i) (tr @ [Emit ''step()'', Sleep 1])"
    using c by (subst run_from.simps) (auto simp: loop_condition_def split: option.splits)
  also have "\<dots> = Some (None, (tr @ [Emit ''step()'', Sleep 1]) @
      concat (replicate n [Emit ''step()'', Sleep 1]) @ [Emit ''stop_auto_play()''])"
    by (rule Suc.IH [OF a b])
  finally show ?case by simp
qed

text \<open>
  Claim C6. When the loop condition of \<^verbatim>\<open>Autoplay.run\<close> (not converged, and
  \<^verbatim>\<open>autoPlay\<close> set) holds at the first \<open>n\<close> tests and fails at the next one, by
  convergence or because the flag was cleared, \<^verbatim>\<open>run\<close> returns, and what it did is
  exactly: \<open>n\<close> times the signal \<^verbatim>\<open>step()\<close> followed by a sleep of one second, then
  the signal \<^verbatim>\<open>stop_auto_play()\<close> once. So \<^verbatim>\<open>step()\<close> is emitted only after a test
  that found the condition true, the condition is tested again after every sleep, and
  \<^verbatim>\<open>stop_auto_play()\<close> is emitted exactly once, last.
\<close>

theorem autoplay_run_trace:
  assumes "\<forall>j < n. loop_condition (view j)"
    and "\<not> loop_condition (view n)" and "k_means (view n) \<noteq> None"
  shows "run view =
     Some (None, concat (replicate n [Emit ''step()'', Sleep 1]) @ [Emit ''stop_auto_play()''])"
  using run_from_first_exit [of n view 0 "[]"] assms by (simp add: run_def)

theorem autoplay_run_trace_witness:
  "loop_condition (example_view 0) \<and> loop_condition (example_view 1) \<and>
   \<not> loop_condition (example_view 2) \<and> k_means (example_view 2) \<noteq> None \<and>
   run example_view =
     Some (None, [Emit ''step()'', Sleep 1, Emit ''step()'', Sleep 1, Emit ''stop_auto_play()''])"
proof -
  have c: "loop_condition (example_view 0)" "loop_condition (example_view 1)"
    "\<not> loop_condition (example_view 2)" "k_means (example_view 2) \<noteq> None"
    by (simp_all add: loop_condition_def example_view_def example_km_def)
  have h1: "\<forall>j < 2. loop_condition (example_view j)"
  proof (intro allI impI)
    fix j :: nat assume "j < 2"
    then have "j = 0 \<or> j = 1" by auto
    with c show "loop_condition (example_view j)" by auto
  qed
  from autoplay_run_trace [OF h1 c(3) c(4)] c show ?thesis
    by (simp add: numeral_2_eq_2)
qed

section \<open>Dropping a centroid\<close>

text \<open>
  Claim C7, as amended. \<^verbatim>\<open>centroid_dropped\<close> has no gate of its own: whenever there is
  an engine it hands the drop to \<^verbatim>\<open>move_centroid\<close>, whatever \<^verbatim>\<open>step_completed\<close> is,
  and a drop on an existing centroid index overwrites that centroid with the dropped
  position. The gate is in the chart: when \<^verbatim>\<open>replot\<close> draws (there is a table, and the
  selected attributes are variables of it), it marks the centroid series draggable in x
  and in y exactly when \<^verbatim>\<open>step_completed\<close> is true.
\<close>

theorem centroid_dropped_ungated:
  "(\<forall>km. k_means w = Some km \<longrightarrow>
      k_means (snd (centroid_dropped i x y w)) = Some (Kmeans_move_centroid i x y km)) \<and>
   (\<forall>km. k_means w = Some km \<and> 0 \<le> i \<and> i < int (Kmeans_k km) \<longrightarrow>
      (\<exists>km'. k_means (snd (centroid_dropped i x y w)) = Some km' \<and>
         centroids km' = (centroids km)[nat i := (x, y)])) \<and>
   (\<forall>km t. k_means w = Some km \<and> data w = Some t \<and> attr_x w \<noteq> [] \<and> attr_y w \<noteq> [] \<and>
        selection_in_domain w t \<longrightarrow>
      fst (replot w) = None \<and>
      scatter (snd (replot w)) \<noteq> Cleared \<and>
      draggableX (scatter (snd (replot w))) = step_completed km \<and>
      draggableY (scatter (snd (replot w))) = step_completed km)"
proof (intro conjI allI impI)
  fix km
  assume "k_means w = Some km"
  then show "k_means (snd (centroid_dropped i x y w)) = Some (Kmeans_move_centroid i x y km)"
    by (simp add: centroid_dropped_def replot_then_send_frame)
next
  fix km
  assume a: "k_means w = Some km \<and> 0 \<le> i \<and> i < int (Kmeans_k km)"
  then have "k_means (snd (centroid_dropped i x y w)) = Some (Kmeans_move_centroid i x y km)"
    by (simp add: centroid_dropped_def replot_then_send_frame)
  moreover have "centroids (Kmeans_move_centroid i x y km) = (centroids km)[nat i := (x, y)]"
    using a by (simp add: Kmeans_move_centroid_def Kmeans_k_def)
  ultimately show "\<exists>km'. k_means (snd (centroid_dropped i x y w)) = Some km' \<and>
         centroids km' = (centroids km)[nat i := (x, y)]"
    by simp
next
  fix km t
  assume a: "k_means w = Some km \<and> data w = Some t \<and> attr_x w \<noteq> [] \<and> attr_y w \<noteq> [] \<and>
        selection_in_domain w t"
  then have r: "replot w = returns (w\<lparr>scatter :=
            Chart (if lines_to_centroids w then membership_lines km else [])
              (map (map Around2) (centroids_belonging_points km))
              (map Around2 (centroids km))
              (if step_completed km then True else False)
              (if step_completed km then True else False)\<rparr>)"
    by (clarsimp simp add: replot_def)
  show "fst (replot w) = None" by (simp add: r returns_def)
  show "scatter (snd (replot w)) \<noteq> Cleared" by (simp add: r returns_def)
  show "draggableX (scatter (snd (replot w))) = step_completed km" by (simp add: r returns_def)
  show "draggableY (scatter (snd (replot w))) = step_completed km" by (simp add: r returns_def)
qed

theorem centroid_dropped_ungated_witness:
  "k_means example_assigned = Some (Kmeans_step example_km) \<and>
   (0::int) \<le> 0 \<and> 0 < int (Kmeans_k (Kmeans_step example_km)) \<and>
   \<not> step_completed (Kmeans_step example_km) \<and>
   map_option centroids (k_means (snd (centroid_dropped 0 5 5 example_assigned)))
     = Some [(5, 5), (10, 0)] \<and>
   fst (replot ((example_widget 2)\<lparr>k_means := Some (Kmeans_step example_km)\<rparr>)) = None \<and>
   \<not> draggableX (scatter (snd (replot
        ((example_widget 2)\<lparr>k_means := Some (Kmeans_step example_km)\<rparr>)))) \<and>
   \<not> draggableY (scatter (snd (replot
        ((example_widget 2)\<lparr>k_means := Some (Kmeans_step example_km)\<rparr>)))) \<and>
   draggableX (scatter (snd (replot ((example_widget 2)\<lparr>k_means := Some example_km\<rparr>)))) \<and>
   draggableY (scatter (snd (replot ((example_widget 2)\<lparr>k_means := Some example_km\<rparr>))))"
proof -
  let ?w = "(example_widget 2)\<lparr>k_means := Some (Kmeans_step example_km)\<rparr>"
  let ?v = "(example_widget 2)\<lparr>k_means := Some example_km\<rparr>"
  have k: "0 < int (Kmeans_k (Kmeans_step example_km))"
    by (simp add: example_step_fields)
  have s: "\<not> step_completed (Kmeans_step example_km)" by (rule example_step_fields)
  have c: "step_completed example_km" by (simp add: example_km_def)
  have sel: "selection_in_domain ?w example_table" "selection_in_domain ?v example_table"
    using example_selection [of 2] by (simp_all add: selection_in_domain_def)
  have hw: "k_means ?w = Some (Kmeans_step example_km) \<and> data ?w = Some example_table \<and>
            attr_x ?w \<noteq> [] \<and> attr_y ?w \<noteq> [] \<and> selection_in_domain ?w example_table"
    using sel by (simp add: example_data example_fields)
  have hv: "k_means ?v = Some example_km \<and> data ?v = Some example_table \<and>
            attr_x ?v \<noteq> [] \<and> attr_y ?v \<noteq> [] \<and> selection_in_domain ?v example_table"
    using sel by (simp add: example_data example_fields)
  have a: "map_option centroids (k_means (snd (centroid_dropped 0 5 5 example_assigned)))
     = Some [(5, 5), (10, 0)]"
    using centroid_dropped_ungated [of example_assigned 0 5 5] example_assigned_engine k
    by (auto simp: example_step_fields)
  have b: "fst (replot ?w) = None \<and> \<not> draggableX (scatter (snd (replot ?w))) \<and>
           \<not> draggableY (scatter (snd (replot ?w)))"
    using centroid_dropped_ungated [of ?w 0 5 5] hw s by blast
  have d: "draggableX (scatter (snd (replot ?v))) \<and> draggableY (scatter (snd (replot ?v)))"
    using centroid_dropped_ungated [of ?v 0 5 5] hv c by blast
  from example_assigned_engine k s a b d show ?thesis by simp
qed

text \<open>The claim as stated fails after the first step of the example session: there
  \<^verbatim>\<open>step_completed\<close> is false, and the drop of centroid 0 at (5, 5) moves it.\<close>

theorem centroid_dropped_counterexample:
  "map_option step_completed (k_means example_assigned) = Some False \<and>
   map_option centroids (k_means example_assigned) = Some [(0, 0), (10, 0)] \<and>
   map_option centroids (k_means (snd (centroid_dropped 0 5 5 example_assigned)))
     = Some [(5, 5), (10, 0)]"
  by (simp add: example_assigned_engine example_step_fields centroid_dropped_def
      replot_then_send_frame Kmeans_move_centroid_def)

section \<open>The step-back button\<close>















section \<open>The spinner setting and the centroid count\<close>










section \<open>The outputs\<close>

lemma cluster_values_two: "cluster_values 2 = [''C1'', ''C2'']"
proof -
  have "[0 ..< 2] = [0, Suc 0]" by (simp add: numeral_2_eq_2)
  then show ?thesis
    by (simp add: cluster_values_def string_of_nat.simps digit_def)
qed

lemma set_data_None:
  "k_means (snd (set_data None w)) = k_means w \<and> data (snd (set_data None w)) = None"
  by (simp add: set_data_def returns_def set_empty_plot_def)

text \<open>
  What \<^verbatim>\<open>send_data\<close> sends. It sends \<^verbatim>\<open>None\<close> on Annotated Data and on Centroids if
  and only if there is no engine or the engine has no assignments. When there are
  assignments and the widget holds a table with as many rows as there are assignments,
  it returns after sending on Annotated Data a table whose only class variable is the
  cluster variable, with the assignments as its column, and on Centroids the table of
  the current centroids. The cluster variable of an engine with \<open>k\<close> centroids has
  exactly \<open>k\<close> values, the \<open>i\<close>-th of them (from 0) named C followed by the decimal
  digits of \<open>i + 1\<close>.
\<close>

lemma send_data_with_table:
  "(sent (snd (send_data w)) =
      sent w @ [(''Annotated Data'', NoTable), (''Centroids'', NoTable)]
    \<longleftrightarrow> (k_means w = None \<or> (\<exists>km. k_means w = Some km \<and> clusters km = None))) \<and>
   (\<forall>km cl t. k_means w = Some km \<and> clusters km = Some cl \<and> data w = Some t \<and>
        length cl = length (rows t) \<longrightarrow>
      fst (send_data w) = None \<and>
      (\<exists>a. sent (snd (send_data w)) =
              sent w @ [(''Annotated Data'', Annotated_table a),
                        (''Centroids'', Centroid_table (centroids km))] \<and>
           ann_class_vars a =
             [\<lparr>var_name = ''cluster'', var_type = Discrete,
               var_values = cluster_values (Kmeans_k km)\<rparr>] \<and>
           ann_cluster_column a = cl)) \<and>
   length (cluster_values k) = k \<and>
   (\<forall>i < k. cluster_values k ! i = ''C'' @ string_of_nat (i + 1))"
proof (intro conjI allI impI)
  show "sent (snd (send_data w)) =
      sent w @ [(''Annotated Data'', NoTable), (''Centroids'', NoTable)]
    \<longleftrightarrow> (k_means w = None \<or> (\<exists>km. k_means w = Some km \<and> clusters km = None))"
    by (auto simp: send_data_def send_def returns_def raises_def Let_def split: option.splits)
next
  fix km cl t
  assume a: "k_means w = Some km \<and> clusters km = Some cl \<and> data w = Some t \<and>
        length cl = length (rows t)"
  then show "fst (send_data w) = None"
    by (simp add: send_data_def send_def returns_def Let_def)
  from a show "\<exists>a. sent (snd (send_data w)) =
              sent w @ [(''Annotated Data'', Annotated_table a),
                        (''Centroids'', Centroid_table (centroids km))] \<and>
           ann_class_vars a =
             [\<lparr>var_name = ''cluster'', var_type = Discrete,
               var_values = cluster_values (Kmeans_k km)\<rparr>] \<and>
           ann_cluster_column a = cl"
    by (simp add: send_data_def send_def returns_def Let_def outputName_def)
next
  show "length (cluster_values k) = k" by (simp add: cluster_values_def)
next
  fix i assume "i < k"
  then show "cluster_values k ! i = ''C'' @ string_of_nat (i + 1)"
    by (simp add: cluster_values_def)
qed

lemma send_data_with_table_example:
  "k_means (example_widget 2) = None \<and>
   sent (snd (send_data (example_widget 2))) =
     sent (example_widget 2) @ [(''Annotated Data'', NoTable), (''Centroids'', NoTable)] \<and>
   k_means example_assigned = Some (Kmeans_step example_km) \<and>
   clusters (Kmeans_step example_km) = Some [0, 0, 1, 1] \<and>
   data example_assigned = Some example_table \<and>
   length [0, 0, 1, 1 :: nat] = length (rows example_table) \<and>
   fst (send_data example_assigned) = None \<and>
   cluster_values 2 = [''C1'', ''C2''] \<and>
   (\<exists>a. sent (snd (send_data example_assigned)) =
           sent example_assigned @ [(''Annotated Data'', Annotated_table a),
                     (''Centroids'', Centroid_table [(0, 0), (10, 0)])] \<and>
        ann_class_vars a = [\<lparr>var_name = ''cluster'', var_type = Discrete,
                            var_values = [''C1'', ''C2'']\<rparr>] \<and>
        ann_cluster_column a = [0, 0, 1, 1])"
proof -
  have n: "k_means (example_widget 2) = None" by (rule example_fields)
  have c: "clusters (Kmeans_step example_km) = Some [0, 0, 1, 1]"
    by (rule example_step_fields)
  have d: "data example_assigned = Some example_table"
    by (simp add: example_assigned_def step_data example_session_fields)
  have l: "length [0, 0, 1, 1 :: nat] = length (rows example_table)"
    by (simp add: example_rows)
  have k: "Kmeans_k (Kmeans_step example_km) = 2" by (rule example_step_fields)
  have cs: "centroids (Kmeans_step example_km) = [(0, 0), (10, 0)]"
    by (rule example_step_fields)
  have a: "sent (snd (send_data (example_widget 2))) =
     sent (example_widget 2) @ [(''Annotated Data'', NoTable), (''Centroids'', NoTable)]"
    using send_data_with_table [of "example_widget 2" 0] n by blast
  have b: "fst (send_data example_assigned) = None \<and>
   (\<exists>a. sent (snd (send_data example_assigned)) =
           sent example_assigned @ [(''Annotated Data'', Annotated_table a),
                     (''Centroids'', Centroid_table [(0, 0), (10, 0)])] \<and>
        ann_class_vars a = [\<lparr>var_name = ''cluster'', var_type = Discrete,
                            var_values = [''C1'', ''C2'']\<rparr>] \<and>
        ann_cluster_column a = [0, 0, 1, 1])"
    using send_data_with_table [of example_assigned 0] example_assigned_engine c d l
    by (simp add: k cs cluster_values_two)
  from n a example_assigned_engine c d l b cluster_values_two show ?thesis by blast
qed

text \<open>The command box and the step button through the methods that lead to the state
  without a table.\<close>

lemma replot_buttons:
  "commandsBox_disabled (snd (replot w)) = commandsBox_disabled w"
  "stepButton_disabled (snd (replot w)) = stepButton_disabled w"
  by (simp_all add: replot_def returns_def raises_def split: option.splits)

lemma send_data_buttons:
  "commandsBox_disabled (snd (send_data w)) = commandsBox_disabled w"
  "stepButton_disabled (snd (send_data w)) = stepButton_disabled w"
  by (simp_all add: send_data_def send_def returns_def raises_def Let_def split: option.splits)

lemma add_loop_buttons:
  "commandsBox_disabled ((add_random_centroid ^^ m) w) = commandsBox_disabled w \<and>
   stepButton_disabled ((add_random_centroid ^^ m) w) = stepButton_disabled w"
  by (induction m) (simp_all add: add_random_centroid_def split: option.splits)

lemma delete_loop_buttons:
  "commandsBox_disabled ((delete_last_centroid ^^ m) w) = commandsBox_disabled w \<and>
   stepButton_disabled ((delete_last_centroid ^^ m) w) = stepButton_disabled w"
  by (induction m) (simp_all add: delete_last_centroid_def split: option.splits)

lemma adjust_centroids_buttons:
  "commandsBox_disabled (snd (adjust_centroids w)) = commandsBox_disabled w \<and>
   stepButton_disabled (snd (adjust_centroids w)) = stepButton_disabled w"
  by (cases "k_means w")
    (simp_all add: adjust_centroids_def raises_def snd_and_then replot_buttons send_data_buttons
      adjusted_def add_loop_buttons delete_loop_buttons)

lemma restart_buttons:
  assumes "data w = Some t" and "selection_in_domain w t"
    and "\<not> numberOfClusters w > int (length (rows t))"
  shows "\<not> commandsBox_disabled (snd (restart w)) \<and>
     stepButton_disabled (snd (restart w)) = stepButton_disabled w"
proof -
  let ?d = "map (\<lambda>r. (r (attr_x w), r (attr_y w))) (rows t)"
  let ?v = "w\<lparr>k_means := Some (Kmeans_init ?d (rng w 0)), rng := (\<lambda>n. rng w (Suc n))\<rparr>"
  have c: "number_of_clusters_changed ?v =
      adjust_centroids (?v\<lparr>info := [], commandsBox_disabled := False\<rparr>)"
    by (rule changed_with_engine [of _ t]) (simp_all add: assms)
  show ?thesis
    by (simp add: restart_calls_changed concat_x_y_selected [OF assms(1,2)] c snd_and_then
        replot_buttons send_data_buttons adjust_centroids_buttons)
qed

lemma step_buttons:
  "commandsBox_disabled (snd (step w)) = commandsBox_disabled w \<and>
   stepButton_disabled (snd (step w)) = stepButton_disabled w"
  by (cases "k_means w")
    (simp_all add: step_def raises_def snd_and_then replot_buttons send_data_buttons)

lemma set_data_None_buttons:
  "commandsBox_disabled (snd (set_data None w)) = commandsBox_disabled w \<and>
   stepButton_disabled (snd (set_data None w)) = stepButton_disabled w"
  by (simp add: set_data_def returns_def set_empty_plot_def)

lemma example_disconnected_buttons:
  "\<not> commandsBox_disabled example_disconnected \<and> \<not> stepButton_disabled example_disconnected"
proof -
  have e: "example_disconnected = snd (set_data None (snd (step (snd (restart (example_widget 2))))))"
    by (simp add: example_disconnected_def perform_all_def example_set_data)
  have r: "\<not> commandsBox_disabled (snd (restart (example_widget 2))) \<and>
     stepButton_disabled (snd (restart (example_widget 2))) = stepButton_disabled (example_widget 2)"
    by (rule restart_buttons [OF example_data example_selection])
      (simp add: example_fields example_rows)
  have "\<not> stepButton_disabled (example_widget 2)"
    by (simp add: example_widget_def new_widget_def)
  with r show ?thesis by (simp add: e set_data_None_buttons step_buttons)
qed

text \<open>
  Claim C10 fails on the code. \<^verbatim>\<open>set_data(None)\<close> stores \<^verbatim>\<open>None\<close> as the table and keeps
  the engine, and it leaves the command box and the step button enabled. After the
  example table, one step and the removal of the input there is an engine with
  assignments and no table: \<^verbatim>\<open>send_data\<close> takes its second branch, raises
  \<^verbatim>\<open>AttributeError\<close> on \<^verbatim>\<open>self.data.domain\<close> and sends nothing, where the claim has
  it send the annotated table and the centroids. Pressing the step button in that
  state ends the same way. \<^verbatim>\<open>replot\<close> returns early when there is no table;
  \<^verbatim>\<open>send_data\<close> has no such test.
\<close>

theorem send_data_without_table:
  "data example_disconnected = None \<and>
   map_option clusters (k_means example_disconnected) = Some (Some [0, 0, 1, 1]) \<and>
   send_data example_disconnected = (Some AttributeError, example_disconnected) \<and>
   \<not> commandsBox_disabled example_disconnected \<and>
   \<not> stepButton_disabled example_disconnected \<and>
   fst (step example_disconnected) = Some AttributeError \<and>
   sent (snd (step example_disconnected)) = sent example_disconnected"
proof -
  let ?km = "Kmeans_step example_km"
  have e: "example_disconnected = snd (set_data None example_assigned)"
    by (simp add: example_disconnected_def perform_all_def example_assigned_def
        example_session_def)
  have k: "k_means example_disconnected = Some ?km"
    by (simp add: e set_data_None example_assigned_engine)
  have d: "data example_disconnected = None" by (simp add: e set_data_None)
  have c: "clusters ?km = Some [0, 0, 1, 1]" by (rule example_step_fields)
  have s: "send_data example_disconnected = (Some AttributeError, example_disconnected)"
    using k d c by (simp add: send_data_def raises_def)
  have c2: "clusters (Kmeans_step ?km) \<noteq> None"
    using c example_step_fields(2) by (simp add: Kmeans_step_def Let_def)
  let ?v = "example_disconnected\<lparr>k_means := Some (Kmeans_step ?km)\<rparr>"
  have r: "replot ?v = returns ?v" by (simp add: replot_def d)
  have st: "\<And>u. data u = None \<Longrightarrow> k_means u = Some (Kmeans_step ?km) \<Longrightarrow>
      send_data u = (Some AttributeError, u)"
    using c2 by (auto simp: send_data_def raises_def)
  have t: "fst (step example_disconnected) = Some AttributeError \<and>
      sent (snd (step example_disconnected)) = sent example_disconnected"
    by (simp add: step_def k r and_then_returns st d)
  from d k c s t example_disconnected_buttons show ?thesis by simp
qed

end
